theory Spec2Isabelle
  imports Complex_Main "HOL-Library.Signed_Division"
begin

section \<open>JavaScript values, callbacks and host effects\<close>

text \<open>
  The library is written in JavaScript, whose numbers are IEEE doubles. Coordinates,
  sizes and times are taken as reals where the code only adds, multiplies by an index
  and compares them (the hit tests, the press timer); rounding error, overflow and the
  sign of zero are not modelled there. Where the code divides and rounds, in the Slider,
  the arithmetic of the doubles is a parameter (see there). A \<open>number\<close> is what a
  double stands for: a real, \<open>NaN\<close> or an infinity.
\<close>

datatype number = Num real | NaN | PosInfinity | NegInfinity

datatype jsval =
    JUndefined
  | JNull
  | JBool bool
  | JNum number
  | JStr string
  | JObj nat

text \<open>Truthiness, as \<open>if (v)\<close> and \<open>v || d\<close> test it.\<close>

fun truthy :: "jsval \<Rightarrow> bool" where
  "truthy JUndefined = False"
| "truthy JNull = False"
| "truthy (JBool b) = b"
| "truthy (JNum (Num r)) = (r \<noteq> 0)"
| "truthy (JNum NaN) = False"
| "truthy (JNum PosInfinity) = True"
| "truthy (JNum NegInfinity) = True"
| "truthy (JStr s) = (s \<noteq> [])"
| "truthy (JObj k) = True"

definition jsOr :: "jsval \<Rightarrow> jsval \<Rightarrow> jsval" where
  "jsOr a b = (if truthy a then a else b)"

text \<open>\<open>v || d\<close> for an optional numeric option: absent and \<open>0\<close> both give the default.\<close>

definition orDefault :: "real option \<Rightarrow> real \<Rightarrow> real" where
  "orDefault v d = (case v of None \<Rightarrow> d | Some r \<Rightarrow> if r = 0 then d else r)"

text \<open>\<open>v || d\<close> for an optional string option: absent and the empty string give the default.\<close>

definition orDefaultStr :: "string option \<Rightarrow> string \<Rightarrow> string" where
  "orDefaultStr v d = (case v of None \<Rightarrow> d | Some s \<Rightarrow> if s = [] then d else s)"

text \<open>
  \<open>a % n\<close> on integers: \<open>NaN\<close> when \<open>n\<close> is zero, otherwise the remainder of the
  truncating division (its sign follows \<open>a\<close>). \<open>None\<close> stands for \<open>NaN\<close>.
\<close>

definition jsRem :: "int \<Rightarrow> int \<Rightarrow> int option" where
  "jsRem a n = (if n = 0 then None else Some (a smod n))"

text \<open>
  Functions passed in by the caller are opaque: \<open>UserCallback k\<close> is the caller's
  function number \<open>k\<close>, and calling it is recorded, not interpreted. The two closures the
  library itself builds in the Modal constructor are kept apart: the callback of the
  generated OK button (\<open>() => this.close()\<close>) and the wrapper put around every button
  for the button menu (call \<open>button.callback\<close> if there is one, then \<open>this.close()\<close>).
  The number is the identity of the modal the closure has captured.
\<close>

datatype js_error = TypeError | Error

datatype callback =
    UserCallback nat
  | ModalClose nat
  | ModalButton "callback option" nat

text \<open>
  The closures handed to \<open>setTimeout\<close>: \<open>this.items[i].callback()\<close> with the loop's
  \<open>i\<close> captured (Menu.handleClick) and \<open>this.items[this.selectedIndex].callback()\<close>,
  read when the timer fires (Menu.handleKeyDown, Menu.activate).
\<close>

datatype thunk =
    ItemCallback nat
  | SelectedItemCallback

text \<open>
  What a handler asks of its environment, in the order it does so: a call of a function
  value, a \<open>setTimeout\<close> registration, and \<open>this.manager.closeModal(this)\<close> of the modal
  with the given identity.
\<close>

datatype effect =
    Call callback "jsval list"
  | SetTimeout thunk real
  | CloseModal nat

text \<open>
  A handler either returns, with the new state of its object and its effects, or throws;
  the assignments made before the throw stay.
\<close>

type_synonym 'a outcome = "(js_error \<times> 'a) + ('a \<times> effect list)"

section \<open>Control and Menu\<close>

text \<open>
  \<open>oid\<close> is the identity of the object (JavaScript compares objects by reference);
  \<open>posX\<close> and \<open>posY\<close> are the fields \<open>x\<close> and \<open>y\<close>. The style options of a control
  (colours, fonts, border) are read by the drawing code only and are left out.
\<close>

record 'n control =
  oid :: nat
  posX :: 'n
  posY :: 'n
  width :: 'n
  height :: 'n

definition containsPoint :: "(real, 'a) control_scheme \<Rightarrow> real \<Rightarrow> real \<Rightarrow> bool" where
  "containsPoint c px py =
     (px \<ge> posX c \<and> px \<le> posX c + width c \<and> py \<ge> posY c \<and> py \<le> posY c + height c)"

record item =
  label :: string
  callback :: "callback option"

record menu = "real control" +
  itemWidth :: real
  itemHeight :: real
  items :: "item list"
  selectedIndex :: "int option"
  orientation :: string
  gap :: real
  pressed :: bool
  pressedTime :: real
  pressedDuration :: real

record menu_options =
  optOrientation :: "string option"
  optGap :: "real option"
  optWidth :: "real option"
  optHeight :: "real option"

definition Menu_new :: "nat \<Rightarrow> real \<Rightarrow> real \<Rightarrow> item list \<Rightarrow> menu_options \<Rightarrow> menu" where
  "Menu_new ident px py its opts =
     (let orientation' = orDefaultStr (optOrientation opts) ''vertical'';
          gap' = orDefault (optGap opts) 0;
          width' = orDefault (optWidth opts) 200;
          height' = orDefault (optHeight opts) 50;
          n = real (length its);
          totalWidth = (if orientation' = ''horizontal'' then n * width' + (n - 1) * gap' else width');
          totalHeight = (if orientation' = ''horizontal'' then height' else n * height' + (n - 1) * gap')
      in \<lparr> oid = ident, posX = px, posY = py, width = totalWidth, height = totalHeight,
           itemWidth = width', itemHeight = height', items = its, selectedIndex = Some 0,
           orientation = orientation', gap = gap', pressed = False, pressedTime = 0,
           pressedDuration = 300 \<rparr>)"

record bounds =
  bx :: real
  by' :: real
  bwidth :: real
  bheight :: real

definition getItemBounds :: "menu \<Rightarrow> nat \<Rightarrow> bounds" where
  "getItemBounds m index =
     (if orientation m = ''horizontal''
      then \<lparr> bx = posX m + real index * (itemWidth m + gap m), by' = posY m,
             bwidth = itemWidth m, bheight = itemHeight m \<rparr>
      else \<lparr> bx = posX m, by' = posY m + real index * (itemHeight m + gap m),
             bwidth = itemWidth m, bheight = itemHeight m \<rparr>)"

definition inBounds :: "bounds \<Rightarrow> real \<Rightarrow> real \<Rightarrow> bool" where
  "inBounds b px py =
     (px \<ge> bx b \<and> px \<le> bx b + bwidth b \<and> py \<ge> by' b \<and> py \<le> by' b + bheight b)"

text \<open>The loop \<open>for (let i = 0; i < this.items.length; i++)\<close> up to its first hit.\<close>

definition firstItemAt :: "menu \<Rightarrow> real \<Rightarrow> real \<Rightarrow> nat option" where
  "firstItemAt m px py =
     find (\<lambda>i. inBounds (getItemBounds m i) px py) [0 ..< length (items m)]"

definition Menu_isOverInteractiveArea :: "menu \<Rightarrow> real \<Rightarrow> real \<Rightarrow> bool" where
  "Menu_isOverInteractiveArea m px py = (firstItemAt m px py \<noteq> None)"

text \<open>\<open>this.items[k]\<close>: \<open>undefined\<close> (here \<open>None\<close>) outside the array and at \<open>NaN\<close>.\<close>

definition itemAt :: "menu \<Rightarrow> int option \<Rightarrow> item option" where
  "itemAt m k =
     (case k of
        None \<Rightarrow> None
      | Some i \<Rightarrow> if 0 \<le> i \<and> i < int (length (items m)) then Some (items m ! nat i) else None)"

definition Menu_handleClick :: "real \<Rightarrow> real \<Rightarrow> menu \<Rightarrow> menu \<times> effect list" where
  "Menu_handleClick px py m =
     (case firstItemAt m px py of
        None \<Rightarrow> (m, [])
      | Some i \<Rightarrow>
          (m\<lparr> selectedIndex := Some (int i), pressed := True, pressedTime := 0 \<rparr>,
           if callback (items m ! i) \<noteq> None then [SetTimeout (ItemCallback i) (pressedDuration m)]
           else []))"

text \<open>
  The press shared by Enter, Space and \<open>activate\<close>. Reading \<open>.callback\<close> of a missing
  item throws; the two assignments before it have been made by then.
\<close>

definition press :: "menu \<Rightarrow> menu outcome" where
  "press m =
     (let m' = m\<lparr> pressed := True, pressedTime := 0 \<rparr>
      in case itemAt m' (selectedIndex m') of
           None \<Rightarrow> Inl (TypeError, m')
         | Some it \<Rightarrow>
             Inr (m', if callback it \<noteq> None
                      then [SetTimeout SelectedItemCallback (pressedDuration m')] else []))"

definition selectPrev :: "menu \<Rightarrow> menu" where
  "selectPrev m =
     m\<lparr> selectedIndex :=
          (case selectedIndex m of
             None \<Rightarrow> None
           | Some s \<Rightarrow> jsRem (s - 1 + int (length (items m))) (int (length (items m)))) \<rparr>"

definition selectNxt :: "menu \<Rightarrow> menu" where
  "selectNxt m =
     m\<lparr> selectedIndex :=
          (case selectedIndex m of
             None \<Rightarrow> None
           | Some s \<Rightarrow> jsRem (s + 1) (int (length (items m)))) \<rparr>"

definition Menu_handleKeyDown :: "string \<Rightarrow> menu \<Rightarrow> menu outcome" where
  "Menu_handleKeyDown key m =
     (let isVertical = (orientation m = ''vertical'');
          prevKey = (if isVertical then ''ArrowUp'' else ''ArrowLeft'');
          nextKey = (if isVertical then ''ArrowDown'' else ''ArrowRight'')
      in if key = prevKey \<or> key = ''ArrowUp'' \<or> key = ''ArrowLeft'' then Inr (selectPrev m, [])
         else if key = nextKey \<or> key = ''ArrowDown'' \<or> key = ''ArrowRight'' then Inr (selectNxt m, [])
         else if key = ''Enter'' \<or> key = '' '' then press m
         else Inr (m, []))"

definition Menu_handleGamepadLeft :: "menu \<Rightarrow> menu" where
  "Menu_handleGamepadLeft m = selectPrev m"

definition Menu_handleGamepadRight :: "menu \<Rightarrow> menu" where
  "Menu_handleGamepadRight m = selectNxt m"

definition Menu_activate :: "menu \<Rightarrow> menu outcome" where
  "Menu_activate m = press m"

text \<open>
  \<open>update(deltaTime)\<close> has no statement that calls a callback or touches a timer; it
  returns the effects it has, none, so that this can be stated.
\<close>

definition Menu_update :: "real \<Rightarrow> menu \<Rightarrow> menu \<times> effect list" where
  "Menu_update deltaTime m =
     (if pressed m
      then (let t = pressedTime m + deltaTime
            in if t \<ge> pressedDuration m then (m\<lparr> pressed := False, pressedTime := 0 \<rparr>, [])
               else (m\<lparr> pressedTime := t \<rparr>, []))
      else (m, []))"

text \<open>A run of \<open>update\<close> calls, one per frame, with the effects of all of them.\<close>

fun Menu_updates :: "real list \<Rightarrow> menu \<Rightarrow> menu \<times> effect list" where
  "Menu_updates [] m = (m, [])"
| "Menu_updates (dt # dts) m =
     (let (m1, es1) = Menu_update dt m; (m2, es2) = Menu_updates dts m1 in (m2, es1 @ es2))"

text \<open>
  What the host does when a timer of a menu fires: the closure reads the item and calls
  its callback with no argument. A missing item, or an item with no callback, throws.
\<close>

definition Menu_fire :: "thunk \<Rightarrow> menu \<Rightarrow> js_error + effect list" where
  "Menu_fire th m =
     (case th of
        ItemCallback i \<Rightarrow>
          (case itemAt m (Some (int i)) of
             None \<Rightarrow> Inl TypeError
           | Some it \<Rightarrow> (case callback it of None \<Rightarrow> Inl TypeError | Some cb \<Rightarrow> Inr [Call cb []]))
      | SelectedItemCallback \<Rightarrow>
          (case itemAt m (selectedIndex m) of
             None \<Rightarrow> Inl TypeError
           | Some it \<Rightarrow> (case callback it of None \<Rightarrow> Inl TypeError | Some cb \<Rightarrow> Inr [Call cb []])))"

section \<open>Slider\<close>

text \<open>
  The slider computes with the doubles of the language: it divides, multiplies and
  rounds, and what it computes decides whether the callback is called and with which
  argument. The doubles are therefore a parameter here: \<open>'d\<close> is their type, and an
  arithmetic gives the operations on them that the code uses, \<open>+\<close>, \<open>-\<close>, \<open>*\<close>,
  \<open>/\<close>, \<open>Math.round\<close>, \<open>Math.min\<close>, \<open>Math.max\<close>, \<open>===\<close>, \<open><\<close> and the test
  for \<open>NaN\<close>. \<open>fLit\<close> is an integer literal, and \<open>fValue\<close> is the number a double
  stands for, as the record of a call keeps it. Nothing is assumed of the operations.
\<close>

record 'd arith =
  fAdd :: "'d \<Rightarrow> 'd \<Rightarrow> 'd"
  fSub :: "'d \<Rightarrow> 'd \<Rightarrow> 'd"
  fMul :: "'d \<Rightarrow> 'd \<Rightarrow> 'd"
  fDiv :: "'d \<Rightarrow> 'd \<Rightarrow> 'd"
  fRound :: "'d \<Rightarrow> 'd"
  fMin :: "'d \<Rightarrow> 'd \<Rightarrow> 'd"
  fMax :: "'d \<Rightarrow> 'd \<Rightarrow> 'd"
  fStrictEq :: "'d \<Rightarrow> 'd \<Rightarrow> bool"
  fLess :: "'d \<Rightarrow> 'd \<Rightarrow> bool"
  fIsNaN :: "'d \<Rightarrow> bool"
  fLit :: "int \<Rightarrow> 'd"
  fValue :: "'d \<Rightarrow> number"

text \<open>
  \<open>padding\<close> is \<open>this.options.padding\<close>; \<open>minVal\<close>, \<open>maxVal\<close>, \<open>val\<close> and
  \<open>sliderCallback\<close> are the fields \<open>min\<close>, \<open>max\<close>, \<open>value\<close> and \<open>callback\<close>.
\<close>

record 'd slider = "'d control" +
  padding :: 'd
  minVal :: 'd
  maxVal :: 'd
  val :: 'd
  step :: 'd
  sliderCallback :: "callback option"

text \<open>\<open>if (this.callback) this.callback(this.value)\<close>\<close>

definition notify :: "'d arith \<Rightarrow> 'd slider \<Rightarrow> effect list" where
  "notify A s =
     (case sliderCallback s of None \<Rightarrow> [] | Some cb \<Rightarrow> [Call cb [JNum (fValue A (val s))]])"

text \<open>\<open>Math.max(this.min, this.value - this.step)\<close>\<close>

definition stepDown :: "'d arith \<Rightarrow> 'd slider \<Rightarrow> 'd" where
  "stepDown A s = fMax A (minVal s) (fSub A (val s) (step s))"

text \<open>\<open>Math.min(this.max, this.value + this.step)\<close>\<close>

definition stepUp :: "'d arith \<Rightarrow> 'd slider \<Rightarrow> 'd" where
  "stepUp A s = fMin A (maxVal s) (fAdd A (val s) (step s))"

definition Slider_handleKeyDown :: "'d arith \<Rightarrow> string \<Rightarrow> 'd slider \<Rightarrow> 'd slider \<times> effect list" where
  "Slider_handleKeyDown A key s =
     (if key = ''ArrowLeft'' then (let s' = s\<lparr> val := stepDown A s \<rparr> in (s', notify A s'))
      else if key = ''ArrowRight'' then (let s' = s\<lparr> val := stepUp A s \<rparr> in (s', notify A s'))
      else (s, []))"

definition Slider_handleGamepadAxis :: "'d arith \<Rightarrow> 'd \<Rightarrow> 'd slider \<Rightarrow> 'd slider \<times> effect list" where
  "Slider_handleGamepadAxis A direction s =
     (let s' = (if fLess A direction (fLit A 0) then s\<lparr> val := stepDown A s \<rparr>
                else s\<lparr> val := stepUp A s \<rparr>)
      in (s', notify A s'))"

text \<open>\<open>Math.max(0, Math.min(1, (x - sliderX) / sliderWidth))\<close>\<close>

definition percentOf :: "'d arith \<Rightarrow> 'd slider \<Rightarrow> 'd \<Rightarrow> 'd" where
  "percentOf A s px =
     (let sliderX = fAdd A (posX s) (padding s);
          sliderWidth = fSub A (width s) (fMul A (padding s) (fLit A 2))
      in fMax A (fLit A 0) (fMin A (fLit A 1) (fDiv A (fSub A px sliderX) sliderWidth)))"

text \<open>The three assignments to \<open>newValue\<close>.\<close>

definition newValueAt :: "'d arith \<Rightarrow> 'd slider \<Rightarrow> 'd \<Rightarrow> 'd" where
  "newValueAt A s px =
     (let percent = percentOf A s px;
          newValue1 = fAdd A (minVal s) (fMul A percent (fSub A (maxVal s) (minVal s)));
          newValue2 = fMul A (fRound A (fDiv A newValue1 (step s))) (step s)
      in fMax A (minVal s) (fMin A (maxVal s) newValue2))"

text \<open>\<open>newValue !== this.value\<close> is the negation of \<open>===\<close>.\<close>

definition updateValueFromX :: "'d arith \<Rightarrow> 'd \<Rightarrow> 'd slider \<Rightarrow> 'd slider \<times> effect list" where
  "updateValueFromX A px s =
     (let newValue = newValueAt A s px
      in if \<not> fStrictEq A newValue (val s)
         then (let s' = s\<lparr> val := newValue \<rparr> in (s', notify A s'))
         else (s, []))"

definition Slider_handleClick :: "'d arith \<Rightarrow> 'd \<Rightarrow> 'd \<Rightarrow> 'd slider \<Rightarrow> 'd slider \<times> effect list" where
  "Slider_handleClick A px py s = updateValueFromX A px s"

record 'd slider_options =
  soWidth :: "'d option"
  soHeight :: "'d option"
  soPadding :: "'d option"

text \<open>
  \<open>v || d\<close> for an optional double and an integer literal: a number is falsy when it
  is zero or \<open>NaN\<close>.
\<close>

definition orLit :: "'d arith \<Rightarrow> 'd option \<Rightarrow> int \<Rightarrow> 'd" where
  "orLit A v d =
     (case v of
        None \<Rightarrow> fLit A d
      | Some r \<Rightarrow> if fIsNaN A r \<or> fStrictEq A r (fLit A 0) then fLit A d else r)"

text \<open>
  The constructor. \<open>padding\<close> is 10 unless the options give one (the spread of the
  options over the defaults of Control).
\<close>

definition Slider_new ::
  "'d arith \<Rightarrow> nat \<Rightarrow> 'd \<Rightarrow> 'd \<Rightarrow> 'd \<Rightarrow> 'd \<Rightarrow> 'd \<Rightarrow> 'd \<Rightarrow> callback option \<Rightarrow> 'd slider_options
     \<Rightarrow> 'd slider" where
  "Slider_new A ident px py mn mx v st cb opts =
     \<lparr> oid = ident, posX = px, posY = py,
       width = orLit A (soWidth opts) 300, height = orLit A (soHeight opts) 80,
       padding = (case soPadding opts of None \<Rightarrow> fLit A 10 | Some p \<Rightarrow> p),
       minVal = mn, maxVal = mx, val = v, step = st, sliderCallback = cb \<rparr>"

text \<open>
  An arithmetic for the examples, on the numbers themselves: exact on the finite
  values, and with the rules of the doubles for \<open>NaN\<close>, the infinities and the division
  by zero. It is the arithmetic of the doubles wherever these do not round, as on the
  small integers and the halves that the examples compute with. It has no negative zero.
\<close>

definition isNegative :: "number \<Rightarrow> bool" where
  "isNegative a = (case a of Num r \<Rightarrow> r < 0 | NegInfinity \<Rightarrow> True | PosInfinity \<Rightarrow> False | NaN \<Rightarrow> False)"

fun exactAdd :: "number \<Rightarrow> number \<Rightarrow> number" where
  "exactAdd NaN b = NaN"
| "exactAdd a NaN = NaN"
| "exactAdd (Num r) (Num t) = Num (r + t)"
| "exactAdd PosInfinity NegInfinity = NaN"
| "exactAdd NegInfinity PosInfinity = NaN"
| "exactAdd PosInfinity b = PosInfinity"
| "exactAdd NegInfinity b = NegInfinity"
| "exactAdd a PosInfinity = PosInfinity"
| "exactAdd a NegInfinity = NegInfinity"

fun exactNeg :: "number \<Rightarrow> number" where
  "exactNeg (Num r) = Num (- r)"
| "exactNeg NaN = NaN"
| "exactNeg PosInfinity = NegInfinity"
| "exactNeg NegInfinity = PosInfinity"

fun exactMul :: "number \<Rightarrow> number \<Rightarrow> number" where
  "exactMul NaN b = NaN"
| "exactMul a NaN = NaN"
| "exactMul (Num r) (Num t) = Num (r * t)"
| "exactMul a b =
     (if a = Num 0 \<or> b = Num 0 then NaN
      else if isNegative a = isNegative b then PosInfinity else NegInfinity)"

fun exactDiv :: "number \<Rightarrow> number \<Rightarrow> number" where
  "exactDiv NaN b = NaN"
| "exactDiv a NaN = NaN"
| "exactDiv (Num r) (Num t) =
     (if t \<noteq> 0 then Num (r / t)
      else if r = 0 then NaN else if r > 0 then PosInfinity else NegInfinity)"
| "exactDiv (Num r) b = Num 0"
| "exactDiv a (Num t) = (if isNegative a = (t < 0) then PosInfinity else NegInfinity)"
| "exactDiv a b = NaN"

fun exactRound :: "number \<Rightarrow> number" where
  "exactRound (Num r) = Num (of_int \<lfloor>r + 1 / 2\<rfloor>)"
| "exactRound a = a"

fun exactLess :: "number \<Rightarrow> number \<Rightarrow> bool" where
  "exactLess NaN b = False"
| "exactLess a NaN = False"
| "exactLess (Num r) (Num t) = (r < t)"
| "exactLess a NegInfinity = False"
| "exactLess PosInfinity b = False"
| "exactLess a b = True"

definition exactMin :: "number \<Rightarrow> number \<Rightarrow> number" where
  "exactMin a b = (if a = NaN \<or> b = NaN then NaN else if exactLess b a then b else a)"

definition exactMax :: "number \<Rightarrow> number \<Rightarrow> number" where
  "exactMax a b = (if a = NaN \<or> b = NaN then NaN else if exactLess a b then b else a)"

definition exactArith :: "number arith" where
  "exactArith =
     \<lparr> fAdd = exactAdd, fSub = (\<lambda>a b. exactAdd a (exactNeg b)), fMul = exactMul,
       fDiv = exactDiv, fRound = exactRound, fMin = exactMin, fMax = exactMax,
       fStrictEq = (\<lambda>a b. a \<noteq> NaN \<and> b \<noteq> NaN \<and> a = b), fLess = exactLess,
       fIsNaN = (\<lambda>a. a = NaN), fLit = (\<lambda>i. Num (of_int i)), fValue = (\<lambda>a. a) \<rparr>"

section \<open>Toast\<close>

text \<open>
  \<open>this.typeConfig[type]\<close> reads a property of an object literal, so a name the literal
  does not define is looked up in \<open>Object.prototype\<close>. The value found there is a
  function (an object for \<open>__proto__\<close>): it is truthy and has neither \<open>color\<close> nor
  \<open>icon\<close>. The glyphs are given as their UTF-8 bytes.
\<close>

datatype config = Config string string | Inherited string

definition typeConfig :: "(string \<times> config) list" where
  "typeConfig =
     [(''info'', Config ''#2196F3'' [CHR 0xE2, CHR 0x84, CHR 0xB9]),
      (''success'', Config ''#4CAF50'' [CHR 0xE2, CHR 0x9C, CHR 0x93]),
      (''warning'', Config ''#FF9800'' [CHR 0xE2, CHR 0x9A, CHR 0xA0]),
      (''error'', Config ''#F44336'' [CHR 0xE2, CHR 0x9C, CHR 0x95])]"

definition objectPrototypeNames :: "string list" where
  "objectPrototypeNames =
     [''constructor'', ''hasOwnProperty'', ''isPrototypeOf'', ''propertyIsEnumerable'',
      ''toLocaleString'', ''toString'', ''valueOf'', ''__proto__'', ''__defineGetter__'',
      ''__defineSetter__'', ''__lookupGetter__'', ''__lookupSetter__'']"

definition typeConfigAt :: "string \<Rightarrow> config option" where
  "typeConfigAt t =
     (case map_of typeConfig t of
        Some c \<Rightarrow> Some c
      | None \<Rightarrow> if t \<in> set objectPrototypeNames then Some (Inherited t) else None)"

record toast =
  tid :: nat
  toastMessage :: string
  toastType :: string
  toastDuration :: real
  toastWidth :: real
  toastHeight :: real
  toastPadding :: real
  config :: config

text \<open>\<open>this.config = this.typeConfig[type] || this.typeConfig.info\<close>\<close>

definition Toast_new :: "nat \<Rightarrow> string \<Rightarrow> string \<Rightarrow> real \<Rightarrow> toast" where
  "Toast_new ident msg type dur =
     \<lparr> tid = ident, toastMessage = msg, toastType = type, toastDuration = dur,
       toastWidth = 300, toastHeight = 80, toastPadding = 15,
       config = (case typeConfigAt type of
                   Some c \<Rightarrow> c
                 | None \<Rightarrow> Config ''#2196F3'' [CHR 0xE2, CHR 0x84, CHR 0xB9]) \<rparr>"

text \<open>
  \<open>this.config.color\<close> and \<open>this.config.icon\<close>, as \<open>draw\<close> reads them for the border,
  the icon circle and the glyph.
\<close>

definition configColor :: "toast \<Rightarrow> jsval" where
  "configColor t = (case config t of Config c i \<Rightarrow> JStr c | Inherited n \<Rightarrow> JUndefined)"

definition configIcon :: "toast \<Rightarrow> jsval" where
  "configIcon t = (case config t of Config c i \<Rightarrow> JStr i | Inherited n \<Rightarrow> JUndefined)"

section \<open>Modal\<close>

text \<open>
  \<open>toLowerCase\<close> on the ASCII letters; labels are taken to be ASCII strings.
\<close>

definition toLowerCaseChar :: "char \<Rightarrow> char" where
  "toLowerCaseChar c =
     (let n = (of_char c :: nat) in if 65 \<le> n \<and> n \<le> 90 then char_of (n + 32) else c)"

definition toLowerCase :: "string \<Rightarrow> string" where
  "toLowerCase s = map toLowerCaseChar s"

text \<open>The drawing surface, as far as the Modal constructor reads it.\<close>

record canvas =
  canvasWidth :: real
  canvasHeight :: real
  measureText :: "string \<Rightarrow> real"

text \<open>\<open>message.split(' ')\<close>\<close>

fun splitSpaces :: "string \<Rightarrow> string list" where
  "splitSpaces [] = [[]]"
| "splitSpaces (c # cs) =
     (if c = CHR '' '' then [] # splitSpaces cs
      else (case splitSpaces cs of [] \<Rightarrow> [[c]] | w # ws \<Rightarrow> (c # w) # ws))"

text \<open>The word-wrap loop of the constructor, which only counts the lines.\<close>

fun countLines :: "canvas \<Rightarrow> real \<Rightarrow> string list \<Rightarrow> string \<Rightarrow> nat \<Rightarrow> nat" where
  "countLines cv maxWidth [] line lineCount = lineCount"
| "countLines cv maxWidth (word # ws) line lineCount =
     (let testLine = line @ word @ '' ''
      in if measureText cv testLine > maxWidth \<and> line \<noteq> []
         then countLines cv maxWidth ws (word @ '' '') (lineCount + 1)
         else countLines cv maxWidth ws testLine lineCount)"

record modal_options =
  moWidth :: "real option"
  moHeight :: "real option"
  moEscapeButtonLabel :: "string option"

record modal =
  mid :: nat
  title :: string
  message :: string
  buttons :: "item list"
  escapeButtonLabel :: "string option"
  modalWidth :: real
  modalHeight :: real
  modalX :: real
  modalY :: real
  buttonMenu :: menu

text \<open>
  \<open>ident\<close> is the identity of the new modal and \<open>menuIdent\<close> that of its button menu.
  \<open>sized\<close> is \<open>options.width && options.height\<close>, an absent option counting as 0; the
  line count is that of the auto-sizing branch. The colour and font options are left out.
\<close>

definition Modal_new ::
  "canvas \<Rightarrow> nat \<Rightarrow> nat \<Rightarrow> string \<Rightarrow> string \<Rightarrow> item list \<Rightarrow> modal_options \<Rightarrow> modal" where
  "Modal_new cv ident menuIdent ttl msg btns opts =
     (let buttons' = (if length btns > 0 then btns
                      else [\<lparr> label = ''OK'', callback = Some (ModalClose ident) \<rparr>]);
          escapeLabel = (case moEscapeButtonLabel opts of
                           None \<Rightarrow> None
                         | Some l \<Rightarrow> if l = [] then None else Some l);
          optionsWidth = orDefault (moWidth opts) 0;
          optionsHeight = orDefault (moHeight opts) 0;
          sized = (optionsWidth \<noteq> 0 \<and> optionsHeight \<noteq> 0);
          lineCount = countLines cv (min 600 (canvasWidth cv * 0.8) - 40) (splitSpaces msg) [] 1;
          w = (if sized then min optionsWidth (canvasWidth cv * 0.9)
               else min 600 (canvasWidth cv * 0.8));
          h = (if sized then min optionsHeight (canvasHeight cv * 0.9)
               else max 200 (min (60 + (real lineCount * 25 + 40) + 90) (canvasHeight cv * 0.8)));
          x0 = (canvasWidth cv - w) / 2;
          y0 = (canvasHeight cv - h) / 2;
          n = real (length buttons');
          totalButtonWidth = n * 150 + (n - 1) * 20;
          buttonsX = x0 + (w - totalButtonWidth) / 2;
          buttonsY = y0 + h - 50 - 20;
          menuItems = map (\<lambda>b. \<lparr> label = label b,
                                    callback = Some (ModalButton (callback b) ident) \<rparr>) buttons'
      in \<lparr> mid = ident, title = ttl, message = msg, buttons = buttons',
           escapeButtonLabel = escapeLabel, modalWidth = w, modalHeight = h,
           modalX = x0, modalY = y0,
           buttonMenu = Menu_new menuIdent buttonsX buttonsY menuItems
             \<lparr> optOrientation = Some ''horizontal'', optGap = Some 20,
               optWidth = Some 150, optHeight = Some 50 \<rparr> \<rparr>)"

definition Modal_handleClick :: "real \<Rightarrow> real \<Rightarrow> modal \<Rightarrow> modal \<times> effect list" where
  "Modal_handleClick px py md =
     (if Menu_isOverInteractiveArea (buttonMenu md) px py
      then (let (m', es) = Menu_handleClick px py (buttonMenu md) in (md\<lparr> buttonMenu := m' \<rparr>, es))
      else (md, []))"

text \<open>\<open>if (btn && btn.callback) btn.callback()\<close> for the result of \<open>find\<close>\<close>

definition callButton :: "item option \<Rightarrow> effect list" where
  "callButton btn =
     (case btn of
        None \<Rightarrow> []
      | Some b \<Rightarrow> (case callback b of None \<Rightarrow> [] | Some cb \<Rightarrow> [Call cb []]))"

text \<open>Lifting an outcome of the button menu to the modal that owns it.\<close>

definition inButtonMenu :: "modal \<Rightarrow> menu outcome \<Rightarrow> modal outcome" where
  "inButtonMenu md r =
     (case r of
        Inl (e, m') \<Rightarrow> Inl (e, md\<lparr> buttonMenu := m' \<rparr>)
      | Inr (m', es) \<Rightarrow> Inr (md\<lparr> buttonMenu := m' \<rparr>, es))"

definition escapeButton :: "modal \<Rightarrow> item option" where
  "escapeButton md =
     (case escapeButtonLabel md of
        None \<Rightarrow> find (\<lambda>b. toLowerCase (label b) \<in> set [''exit'', ''close'', ''cancel'']) (buttons md)
      | Some l \<Rightarrow>
          if l = []
          then find (\<lambda>b. toLowerCase (label b) \<in> set [''exit'', ''close'', ''cancel'']) (buttons md)
          else find (\<lambda>b. toLowerCase (label b) = toLowerCase l) (buttons md))"

definition Modal_handleKeyDown :: "string \<Rightarrow> modal \<Rightarrow> modal outcome" where
  "Modal_handleKeyDown key md =
     (if key = ''Escape''
      then Inr (md, callButton (escapeButton md) @ [CloseModal (mid md)])
      else inButtonMenu md (Menu_handleKeyDown key (buttonMenu md)))"

definition exitButton :: "modal \<Rightarrow> item option" where
  "exitButton md =
     find (\<lambda>b. toLowerCase (label b) = ''exit'' \<or> toLowerCase (label b) = ''close''
                \<or> toLowerCase (label b) = ''cancel'') (buttons md)"

definition Modal_handleGamepadButton :: "int \<Rightarrow> modal \<Rightarrow> modal outcome" where
  "Modal_handleGamepadButton buttonIndex md =
     (if buttonIndex = 1
      then Inr (md, callButton (exitButton md) @ [CloseModal (mid md)])
      else if buttonIndex = 0 then inButtonMenu md (Menu_activate (buttonMenu md))
      else if buttonIndex = 14 then Inr (md\<lparr> buttonMenu := Menu_handleGamepadLeft (buttonMenu md) \<rparr>, [])
      else if buttonIndex = 15 then Inr (md\<lparr> buttonMenu := Menu_handleGamepadRight (buttonMenu md) \<rparr>, [])
      else Inr (md, []))"

definition Modal_update :: "real \<Rightarrow> modal \<Rightarrow> modal \<times> effect list" where
  "Modal_update deltaTime md =
     (let (m', es) = Menu_update deltaTime (buttonMenu md) in (md\<lparr> buttonMenu := m' \<rparr>, es))"

section \<open>The manager\<close>

text \<open>
  The manager never looks inside a control: it calls \<open>containsPoint\<close>, asks whether a
  handler exists (\<open>if (control.handleClick)\<close>) and calls it. A control class is
  therefore given by the methods the manager uses; \<open>None\<close> says that an object has no
  such method. \<open>identity\<close> is the reference that \<open>indexOf\<close> compares, and
  \<open>applyThemeOf\<close> is \<open>applyTheme\<close>, which reads the manager's theme and default font.
\<close>

record keyEvent =
  key :: string
  shiftKey :: bool
  ctrlKey :: bool
  metaKey :: bool

record font =
  ffamily :: jsval
  fsize :: jsval
  fweight :: jsval
  fstyle :: jsval

record 'c control_class =
  identity :: "'c \<Rightarrow> nat"
  containsPointOf :: "'c \<Rightarrow> real \<Rightarrow> real \<Rightarrow> bool"
  handleClickOf :: "'c \<Rightarrow> (real \<Rightarrow> real \<Rightarrow> 'c outcome) option"
  handleKeyDownOf :: "'c \<Rightarrow> (keyEvent \<Rightarrow> 'c outcome) option"
  activateOf :: "'c \<Rightarrow> 'c outcome option"
  handleGamepadAxisOf :: "'c \<Rightarrow> (real \<Rightarrow> 'c outcome) option"
  handleGamepadLeftOf :: "'c \<Rightarrow> 'c outcome option"
  handleGamepadRightOf :: "'c \<Rightarrow> 'c outcome option"
  applyThemeOf :: "(string \<rightharpoonup> jsval) \<Rightarrow> font \<Rightarrow> 'c \<Rightarrow> 'c"

text \<open>\<open>this.options\<close> of the manager: the background configuration.\<close>

record ui_options =
  backgroundColor :: jsval
  backgroundGradient :: "(real \<times> string) list option"
  gradientDirection :: "string option"
  noBackground :: bool

record imageObj =
  imageAsset :: nat
  imageComplete :: bool
  imageX :: real
  imageY :: real
  imageWidth :: real
  imageHeight :: real

record textObj =
  textString :: string
  textX :: real
  textY :: real
  textFont :: string
  textColor :: jsval
  textAlign :: string
  textBaseline :: string

text \<open>A pending \<open>setTimeout\<close>: of a menu (its identity, the closure, the delay) or of a toast.\<close>

datatype timer = MenuTimer nat thunk real | ToastTimer nat real

text \<open>
  The fields of the manager, and with them the part of the host it acts on: the timers
  registered and not yet fired, the calls made to the caller's functions (function
  number and arguments, oldest first), and the next fresh object identity.
\<close>

record 'c ui =
  canvasOf :: canvas
  controls :: "'c list"
  focusIndex :: int
  modals :: "modal list"
  toasts :: "toast list"
  images :: "imageObj list"
  texts :: "textObj list"
  theme :: "string \<rightharpoonup> jsval"
  defaultFont :: font
  options :: ui_options
  keys :: "string set"
  onEscape :: "callback option"
  timers :: "timer list"
  calls :: "(nat \<times> jsval list) list"
  fresh :: nat

definition defaultTheme :: "(string \<times> jsval) list" where
  "defaultTheme =
     [(''controlColor'', JStr ''#4CAF50''),
      (''controlSurfaceColor'', JStr ''#333333''),
      (''controlTextColor'', JStr ''#ffffff''),
      (''controlBorderColor'', JStr ''#666666''),
      (''controlFocusBorderColor'', JStr ''#4CAF50''),
      (''controlClickColor'', JStr ''#388E3C''),
      (''menuButtonColor'', JStr ''#4CAF50''),
      (''menuButtonActiveColor'', JStr ''#388E3C''),
      (''menuButtonClickColor'', JStr ''#2E7D32''),
      (''menuButtonBorderColor'', JStr ''#666666''),
      (''menuButtonFocusBorderColor'', JStr ''#4CAF50''),
      (''menuButtonFontSize'', JNum (Num 16)),
      (''modalSurfaceColor'', JStr ''#222222''),
      (''modalBorderColor'', JStr ''#888888''),
      (''modalTextColor'', JStr ''#ffffff''),
      (''modalText2Color'', JStr ''#cccccc''),
      (''modalTextFontSize'', JNum (Num 18)),
      (''modalText2FontSize'', JNum (Num 14)),
      (''panelSurfaceColor'', JStr ''#2a2a2a''),
      (''panelBorderColor'', JStr ''#4CAF50''),
      (''borderRadius'', JNum (Num 6)),
      (''borderWidth'', JNum (Num 2)),
      (''fontFamily'', JStr ''Arial''),
      (''fontSize'', JNum (Num 16)),
      (''padding'', JNum (Num 10))]"

text \<open>
  The options of the constructor. \<open>coBackgroundColor = None\<close> says that the key is
  absent; a key that is present wins over the default through the spread, whatever its
  value. \<open>coInput\<close> is the input manager passed, given by its set of pressed keys,
  which the manager shares (\<open>this.keys = this.input.keys\<close>); \<open>None\<close> when no input
  manager is passed.
\<close>

record ctor_options =
  coBackgroundColor :: "jsval option"
  coBackgroundGradient :: "(real \<times> string) list option"
  coGradientDirection :: "string option"
  coNoBackground :: bool
  coInput :: "string set option"

definition MarkJSCanvasUI_new :: "canvas \<Rightarrow> ctor_options \<Rightarrow> js_error + 'c ui" where
  "MarkJSCanvasUI_new cv opts =
     (case coInput opts of
        None \<Rightarrow> Inl Error
      | Some inputKeys \<Rightarrow>
          Inr \<lparr> canvasOf = cv, controls = [], focusIndex = -1, modals = [], toasts = [],
                 images = [], texts = [], theme = map_of defaultTheme,
                 defaultFont = \<lparr> ffamily = JStr ''Arial'', fsize = JNum (Num 16),
                                 fweight = JStr ''normal'', fstyle = JStr ''normal'' \<rparr>,
                 options = \<lparr> backgroundColor =
                               (case coBackgroundColor opts of None \<Rightarrow> JStr ''#1a1a1a'' | Some v \<Rightarrow> v),
                             backgroundGradient = coBackgroundGradient opts,
                             gradientDirection = coGradientDirection opts,
                             noBackground = coNoBackground opts \<rparr>,
                 keys = inputKeys, onEscape = None, timers = [], calls = [], fresh = 0 \<rparr>)"

text \<open>\<open>indexOf\<close> by a test for the element sought, and \<open>splice(index, 1)\<close>.\<close>

fun indexOf :: "('a \<Rightarrow> bool) \<Rightarrow> 'a list \<Rightarrow> int" where
  "indexOf P [] = -1"
| "indexOf P (x # xs) = (if P x then 0 else (let r = indexOf P xs in if r = -1 then -1 else r + 1))"

definition splice1 :: "nat \<Rightarrow> 'a list \<Rightarrow> 'a list" where
  "splice1 index xs = take index xs @ drop (Suc index) xs"

text \<open>\<open>closeModal(modal)\<close>, the modal given by its identity.\<close>

definition closeModal :: "nat \<Rightarrow> 'c ui \<Rightarrow> 'c ui" where
  "closeModal m u =
     (let index = indexOf (\<lambda>md. mid md = m) (modals u)
      in if index > -1 then u\<lparr> modals := splice1 (nat index) (modals u) \<rparr> else u)"

text \<open>Calling a function value: the caller's functions are recorded, the closures of a modal run.\<close>

fun invoke :: "callback \<Rightarrow> jsval list \<Rightarrow> 'c ui \<Rightarrow> 'c ui" where
  "invoke (UserCallback k) args u = u\<lparr> calls := calls u @ [(k, args)] \<rparr>"
| "invoke (ModalClose m) args u = closeModal m u"
| "invoke (ModalButton None m) args u = closeModal m u"
| "invoke (ModalButton (Some cb) m) args u = closeModal m (invoke cb [] u)"

fun runEffect :: "nat \<Rightarrow> effect \<Rightarrow> 'c ui \<Rightarrow> 'c ui" where
  "runEffect owner (Call cb args) u = invoke cb args u"
| "runEffect owner (SetTimeout th d) u = u\<lparr> timers := timers u @ [MenuTimer owner th d] \<rparr>"
| "runEffect owner (CloseModal m) u = closeModal m u"

fun runEffects :: "nat \<Rightarrow> effect list \<Rightarrow> 'c ui \<Rightarrow> 'c ui" where
  "runEffects owner [] u = u"
| "runEffects owner (e # es) u = runEffects owner es (runEffect owner e u)"

type_synonym 'c result = "(js_error \<times> 'c ui) + 'c ui"

text \<open>The control at index \<open>i\<close> has handled an event: its new state and its effects.\<close>

definition settleControl :: "'c control_class \<Rightarrow> nat \<Rightarrow> 'c outcome \<Rightarrow> 'c ui \<Rightarrow> 'c result" where
  "settleControl I i r u =
     (case r of
        Inl (e, c') \<Rightarrow> Inl (e, u\<lparr> controls := (controls u)[i := c'] \<rparr>)
      | Inr (c', es) \<Rightarrow> Inr (runEffects (identity I c') es (u\<lparr> controls := (controls u)[i := c'] \<rparr>)))"

text \<open>The same for \<open>this.modals[this.modals.length - 1]\<close>.\<close>

definition settleModal :: "modal outcome \<Rightarrow> 'c ui \<Rightarrow> 'c result" where
  "settleModal r u =
     (let j = length (modals u) - 1
      in case r of
           Inl (e, md') \<Rightarrow> Inl (e, u\<lparr> modals := (modals u)[j := md'] \<rparr>)
         | Inr (md', es) \<Rightarrow>
             Inr (runEffects (oid (buttonMenu md')) es (u\<lparr> modals := (modals u)[j := md'] \<rparr>)))"

definition focusNext :: "'c ui \<Rightarrow> 'c ui" where
  "focusNext u =
     (if length (controls u) = 0 then u
      else u\<lparr> focusIndex := (focusIndex u + 1) smod int (length (controls u)) \<rparr>)"

definition focusPrevious :: "'c ui \<Rightarrow> 'c ui" where
  "focusPrevious u =
     (if length (controls u) = 0 then u
      else u\<lparr> focusIndex :=
                (focusIndex u - 1 + int (length (controls u))) smod int (length (controls u)) \<rparr>)"

definition addControl :: "'c control_class \<Rightarrow> 'c \<Rightarrow> 'c ui \<Rightarrow> 'c \<times> 'c ui" where
  "addControl I c u =
     (let c' = applyThemeOf I (theme u) (defaultFont u) c;
          u1 = u\<lparr> controls := controls u @ [c'] \<rparr>;
          u2 = (if focusIndex u1 = -1 \<and> length (controls u1) = 1 then u1\<lparr> focusIndex := 0 \<rparr> else u1)
      in (c', u2))"

definition removeControl :: "'c control_class \<Rightarrow> 'c \<Rightarrow> 'c ui \<Rightarrow> 'c ui" where
  "removeControl I c u =
     (let index = indexOf (\<lambda>d. identity I d = identity I c) (controls u)
      in if index > -1
         then (let u1 = u\<lparr> controls := splice1 (nat index) (controls u) \<rparr>
               in if focusIndex u1 \<ge> int (length (controls u1))
                  then u1\<lparr> focusIndex := int (length (controls u1)) - 1 \<rparr> else u1)
         else u)"

definition removeAllControls :: "'c ui \<Rightarrow> 'c ui" where
  "removeAllControls u =
     u\<lparr> controls := [], focusIndex := -1, texts := [], images := [], modals := [],
        toasts := [], onEscape := None \<rparr>"

definition removeAllControlsExceptToasts :: "'c ui \<Rightarrow> 'c ui" where
  "removeAllControlsExceptToasts u =
     u\<lparr> controls := [], focusIndex := -1, texts := [], images := [], modals := [],
        onEscape := None \<rparr>"

definition addImage :: "nat \<Rightarrow> bool \<Rightarrow> real \<Rightarrow> real \<Rightarrow> real \<Rightarrow> real \<Rightarrow> 'c ui \<Rightarrow> imageObj \<times> 'c ui" where
  "addImage img loaded px py w h u =
     (let imageObj = \<lparr> imageAsset = img, imageComplete = loaded, imageX = px, imageY = py,
                       imageWidth = w, imageHeight = h \<rparr>
      in (imageObj, u\<lparr> images := images u @ [imageObj] \<rparr>))"

definition setBackground :: "jsval \<Rightarrow> 'c ui \<Rightarrow> 'c ui" where
  "setBackground color u =
     u\<lparr> options := (options u)\<lparr> backgroundColor := color, backgroundGradient := None,
                                noBackground := False \<rparr> \<rparr>"

definition setBackgroundGradient :: "(real \<times> string) list \<Rightarrow> string option \<Rightarrow> 'c ui \<Rightarrow> 'c ui" where
  "setBackgroundGradient gradient direction u =
     u\<lparr> options := (options u)\<lparr> backgroundGradient := Some gradient,
                                gradientDirection :=
                                  Some (case direction of None \<Rightarrow> ''diagonal'' | Some d \<Rightarrow> d),
                                noBackground := False \<rparr> \<rparr>"

definition setBackgroundNone :: "'c ui \<Rightarrow> 'c ui" where
  "setBackgroundNone u = u\<lparr> options := (options u)\<lparr> noBackground := True \<rparr> \<rparr>"

text \<open>Reading a property of an options object: \<open>undefined\<close> when the key is absent.\<close>

definition getProp :: "(string \<rightharpoonup> jsval) \<Rightarrow> string \<Rightarrow> jsval" where
  "getProp obj k = (case obj k of None \<Rightarrow> JUndefined | Some v \<Rightarrow> v)"

definition setTheme :: "(string \<rightharpoonup> jsval) \<Rightarrow> 'c ui \<Rightarrow> 'c ui" where
  "setTheme themeOptions u =
     (let u1 = u\<lparr> theme := theme u ++ themeOptions \<rparr>;
          u2 = (if truthy (getProp themeOptions ''backgroundColor'')
                then u1\<lparr> options := (options u1)\<lparr> backgroundColor :=
                                                     getProp themeOptions ''backgroundColor'' \<rparr> \<rparr>
                else u1)
      in if truthy (getProp themeOptions ''fontFamily'') \<or> truthy (getProp themeOptions ''fontSize'')
            \<or> truthy (getProp themeOptions ''fontWeight'') \<or> truthy (getProp themeOptions ''fontStyle'')
            \<or> truthy (getProp themeOptions ''family'') \<or> truthy (getProp themeOptions ''size'')
            \<or> truthy (getProp themeOptions ''weight'') \<or> truthy (getProp themeOptions ''style'')
         then u2\<lparr> defaultFont :=
                    \<lparr> ffamily = jsOr (getProp themeOptions ''fontFamily'')
                                  (jsOr (getProp themeOptions ''family'') (ffamily (defaultFont u2))),
                      fsize = jsOr (getProp themeOptions ''fontSize'')
                                (jsOr (getProp themeOptions ''size'') (fsize (defaultFont u2))),
                      fweight = jsOr (getProp themeOptions ''fontWeight'')
                                  (jsOr (getProp themeOptions ''weight'') (fweight (defaultFont u2))),
                      fstyle = jsOr (getProp themeOptions ''fontStyle'')
                                 (jsOr (getProp themeOptions ''style'') (fstyle (defaultFont u2))) \<rparr> \<rparr>
         else u2)"

definition showModal ::
  "string \<Rightarrow> string \<Rightarrow> item list \<Rightarrow> modal_options \<Rightarrow> 'c ui \<Rightarrow> modal \<times> 'c ui" where
  "showModal ttl msg btns opts u =
     (let md = Modal_new (canvasOf u) (fresh u) (fresh u + 1) ttl msg btns opts
      in (md, u\<lparr> modals := modals u @ [md], fresh := fresh u + 2 \<rparr>))"

text \<open>\<open>type\<close> and \<open>duration\<close> have defaults, taken when the argument is not given.\<close>

definition showToast :: "string \<Rightarrow> string option \<Rightarrow> real option \<Rightarrow> 'c ui \<Rightarrow> toast \<times> 'c ui" where
  "showToast msg type dur u =
     (let type' = (case type of None \<Rightarrow> ''info'' | Some t \<Rightarrow> t);
          duration = (case dur of None \<Rightarrow> 3000 | Some d \<Rightarrow> d);
          t = Toast_new (fresh u) msg type' duration
      in (t, u\<lparr> toasts := toasts u @ [t],
                 timers := timers u @ [ToastTimer (tid t) duration],
                 fresh := fresh u + 1 \<rparr>))"

text \<open>The closure of \<open>showToast\<close>, run by the host when the timer of the toast fires.\<close>

definition dismissToast :: "nat \<Rightarrow> 'c ui \<Rightarrow> 'c ui" where
  "dismissToast t u =
     (let index = indexOf (\<lambda>x. tid x = t) (toasts u)
      in if index > -1 then u\<lparr> toasts := splice1 (nat index) (toasts u) \<rparr> else u)"

text \<open>
  The loop of \<open>onMouseClick\<close>, \<open>for (let i = this.controls.length - 1; i >= 0; i--)\<close>:
  the argument \<open>Suc i\<close> stands for the loop at index \<open>i\<close>, and \<open>0\<close> for its end.
\<close>

fun scanClick :: "'c control_class \<Rightarrow> real \<Rightarrow> real \<Rightarrow> nat \<Rightarrow> 'c ui \<Rightarrow> 'c result" where
  "scanClick I px py 0 u = Inr u"
| "scanClick I px py (Suc i) u =
     (let control = controls u ! i
      in if containsPointOf I control px py
         then (let u1 = u\<lparr> focusIndex := int i \<rparr>
               in case handleClickOf I control of
                    None \<Rightarrow> Inr u1
                  | Some h \<Rightarrow> settleControl I i (h px py) u1)
         else scanClick I px py i u)"

definition onMouseClick :: "'c control_class \<Rightarrow> real \<Rightarrow> real \<Rightarrow> 'c ui \<Rightarrow> 'c result" where
  "onMouseClick I px py u =
     (if length (modals u) > 0
      then settleModal (Inr (Modal_handleClick px py (last (modals u)))) u
      else scanClick I px py (length (controls u)) u)"

definition onKeyDown :: "'c control_class \<Rightarrow> keyEvent \<Rightarrow> 'c ui \<Rightarrow> 'c result" where
  "onKeyDown I e u0 =
     (let u = u0\<lparr> keys := insert (key e) (keys u0) \<rparr>
      in if key e = ''Escape''
         then (if length (modals u) > 0
               then settleModal (Modal_handleKeyDown (key e) (last (modals u))) u
               else (case onEscape u of None \<Rightarrow> Inr u | Some cb \<Rightarrow> Inr (invoke cb [] u)))
         else if length (modals u) > 0
         then settleModal (Modal_handleKeyDown (key e) (last (modals u))) u
         else if key e = ''Tab''
         then Inr (if shiftKey e then focusPrevious u else focusNext u)
         else if focusIndex u \<ge> 0 \<and> focusIndex u < int (length (controls u))
         then (case handleKeyDownOf I (controls u ! nat (focusIndex u)) of
                 None \<Rightarrow> Inr u
               | Some h \<Rightarrow> settleControl I (nat (focusIndex u)) (h e) u)
         else Inr u)"

text \<open>The focused control, if the focus index is inside the sequence.\<close>

definition focused :: "'c ui \<Rightarrow> 'c option" where
  "focused u =
     (if focusIndex u \<ge> 0 \<and> focusIndex u < int (length (controls u))
      then Some (controls u ! nat (focusIndex u)) else None)"

definition onGamepadButton :: "'c control_class \<Rightarrow> int \<Rightarrow> 'c ui \<Rightarrow> 'c result" where
  "onGamepadButton I buttonIndex u =
     (if length (modals u) > 0
      then settleModal (Modal_handleGamepadButton buttonIndex (last (modals u))) u
      else if buttonIndex = 0
      then (case focused u of
              None \<Rightarrow> Inr u
            | Some control \<Rightarrow>
                (case activateOf I control of
                   None \<Rightarrow> Inr u
                 | Some r \<Rightarrow> settleControl I (nat (focusIndex u)) r u))
      else if buttonIndex = 1
      then (case onEscape u of None \<Rightarrow> Inr u | Some cb \<Rightarrow> Inr (invoke cb [] u))
      else if buttonIndex = 12 then Inr (focusPrevious u)
      else if buttonIndex = 13 then Inr (focusNext u)
      else if buttonIndex = 14
      then (case focused u of
              None \<Rightarrow> Inr u
            | Some control \<Rightarrow>
                (case handleGamepadAxisOf I control of
                   Some h \<Rightarrow> settleControl I (nat (focusIndex u)) (h (-1)) u
                 | None \<Rightarrow>
                     (case handleGamepadLeftOf I control of
                        None \<Rightarrow> Inr u
                      | Some r \<Rightarrow> settleControl I (nat (focusIndex u)) r u)))
      else if buttonIndex = 15
      then (case focused u of
              None \<Rightarrow> Inr u
            | Some control \<Rightarrow>
                (case handleGamepadAxisOf I control of
                   Some h \<Rightarrow> settleControl I (nat (focusIndex u)) (h 1) u
                 | None \<Rightarrow>
                     (case handleGamepadRightOf I control of
                        None \<Rightarrow> Inr u
                      | Some r \<Rightarrow> settleControl I (nat (focusIndex u)) r u)))
      else Inr u)"

text \<open>
  What the first block of \<open>render\<close> asks of the drawing context: the background fill.
  The layers drawn after it (panels, images, texts, controls, modals, toasts) are not
  modelled.
\<close>

datatype draw =
    CreateLinearGradient real real real real
  | AddColorStop real string
  | FillStyleGradient
  | FillStyle jsval
  | FillRect real real real real

definition renderBackground :: "'c ui \<Rightarrow> draw list" where
  "renderBackground u =
     (if \<not> noBackground (options u)
      then (case backgroundGradient (options u) of
              Some stops \<Rightarrow>
                (let direction = orDefaultStr (gradientDirection (options u)) ''diagonal''
                 in (if direction = ''horizontal''
                     then [CreateLinearGradient 0 0 (canvasWidth (canvasOf u)) 0]
                     else if direction = ''vertical''
                     then [CreateLinearGradient 0 0 0 (canvasHeight (canvasOf u))]
                     else [CreateLinearGradient 0 0 (canvasWidth (canvasOf u)) (canvasHeight (canvasOf u))])
                    @ map (\<lambda>(offset, color). AddColorStop offset color) stops
                    @ [FillStyleGradient])
            | None \<Rightarrow> [FillStyle (backgroundColor (options u))])
           @ [FillRect 0 0 (canvasWidth (canvasOf u)) (canvasHeight (canvasOf u))]
      else [])"

section \<open>Sequences of manager operations\<close>

text \<open>
  The state a dispatch leaves behind, whether the handler returned or threw (the
  exception goes to the host, the manager stays as it is), and the object a handler
  leaves behind.
\<close>

definition stateOf :: "'c result \<Rightarrow> 'c ui" where
  "stateOf r = (case r of Inl (e, u) \<Rightarrow> u | Inr u \<Rightarrow> u)"

definition objectOf :: "'a outcome \<Rightarrow> 'a" where
  "objectOf r = (case r of Inl (e, a) \<Rightarrow> a | Inr (a, es) \<Rightarrow> a)"

datatype 'c operation =
    AddControl 'c
  | RemoveControl 'c
  | RemoveAllControls
  | FocusNext
  | FocusPrevious
  | Click real real

fun applyOperation :: "'c control_class \<Rightarrow> 'c operation \<Rightarrow> 'c ui \<Rightarrow> 'c ui" where
  "applyOperation I (AddControl c) u = snd (addControl I c u)"
| "applyOperation I (RemoveControl c) u = removeControl I c u"
| "applyOperation I RemoveAllControls u = removeAllControls u"
| "applyOperation I FocusNext u = focusNext u"
| "applyOperation I FocusPrevious u = focusPrevious u"
| "applyOperation I (Click px py) u = stateOf (onMouseClick I px py u)"

fun run :: "'c control_class \<Rightarrow> 'c operation list \<Rightarrow> 'c ui \<Rightarrow> 'c ui" where
  "run I [] u = u"
| "run I (op # ops) u = run I ops (applyOperation I op u)"

text \<open>The focus index is in range, and it is -1 exactly when there is no control.\<close>

definition focusInRange :: "'c ui \<Rightarrow> bool" where
  "focusInRange u =
     (- 1 \<le> focusIndex u \<and> focusIndex u \<le> int (length (controls u)) - 1
      \<and> ((focusIndex u = - 1) = (controls u = [])))"

section \<open>The control classes of the toolkit, as the manager sees them\<close>

text \<open>
  The base class, Panel and Menu. \<open>applyTheme\<close> rebuilds \<open>this.options\<close>, the style
  options, which none of the methods modelled for these three classes reads; so it
  leaves the modelled state as it is. Panel overrides \<open>containsPoint\<close> to return false,
  and neither Panel nor the base class has an input handler.
\<close>

definition Control_new :: "nat \<Rightarrow> real \<Rightarrow> real \<Rightarrow> real \<Rightarrow> real \<Rightarrow> real control" where
  "Control_new ident px py w h = \<lparr> oid = ident, posX = px, posY = py, width = w, height = h \<rparr>"

definition Panel_new :: "nat \<Rightarrow> real \<Rightarrow> real \<Rightarrow> real option \<Rightarrow> real option \<Rightarrow> real control" where
  "Panel_new ident px py w h =
     \<lparr> oid = ident, posX = px, posY = py, width = orDefault w 500, height = orDefault h 500 \<rparr>"

datatype widget = BaseW "real control" | PanelW "real control" | MenuW menu

definition asWidget :: "menu outcome \<Rightarrow> widget outcome" where
  "asWidget r = (case r of Inl (e, m) \<Rightarrow> Inl (e, MenuW m) | Inr (m, es) \<Rightarrow> Inr (MenuW m, es))"

definition widgetClass :: "widget control_class" where
  "widgetClass =
     \<lparr> identity = (\<lambda>w. case w of BaseW c \<Rightarrow> oid c | PanelW c \<Rightarrow> oid c | MenuW m \<Rightarrow> oid m),
       containsPointOf =
         (\<lambda>w px py. case w of
            BaseW c \<Rightarrow> containsPoint c px py
          | PanelW c \<Rightarrow> False
          | MenuW m \<Rightarrow> containsPoint m px py),
       handleClickOf =
         (\<lambda>w. case w of
            MenuW m \<Rightarrow> Some (\<lambda>px py. asWidget (Inr (Menu_handleClick px py m)))
          | BaseW c \<Rightarrow> None
          | PanelW c \<Rightarrow> None),
       handleKeyDownOf =
         (\<lambda>w. case w of
            MenuW m \<Rightarrow> Some (\<lambda>e. asWidget (Menu_handleKeyDown (key e) m))
          | BaseW c \<Rightarrow> None
          | PanelW c \<Rightarrow> None),
       activateOf =
         (\<lambda>w. case w of
            MenuW m \<Rightarrow> Some (asWidget (Menu_activate m))
          | BaseW c \<Rightarrow> None
          | PanelW c \<Rightarrow> None),
       handleGamepadAxisOf = (\<lambda>w. None),
       handleGamepadLeftOf =
         (\<lambda>w. case w of
            MenuW m \<Rightarrow> Some (Inr (MenuW (Menu_handleGamepadLeft m), []))
          | BaseW c \<Rightarrow> None
          | PanelW c \<Rightarrow> None),
       handleGamepadRightOf =
         (\<lambda>w. case w of
            MenuW m \<Rightarrow> Some (Inr (MenuW (Menu_handleGamepadRight m), []))
          | BaseW c \<Rightarrow> None
          | PanelW c \<Rightarrow> None),
       applyThemeOf = (\<lambda>th f w. w) \<rparr>"

section \<open>Concrete inputs\<close>

text \<open>The callbacks among a list of effects, in the order they are called.\<close>

fun invoked :: "effect list \<Rightarrow> callback list" where
  "invoked [] = []"
| "invoked (Call cb args # es) = cb # invoked es"
| "invoked (SetTimeout th d # es) = invoked es"
| "invoked (CloseModal m # es) = invoked es"

text \<open>
  \<open>new Menu(0, 0, [{label: 'Play', callback: f0}, {label: 'Quit'}])\<close>: two items of
  200 by 50, one below the other, and a press duration of 300 ms.
\<close>

definition exampleMenu :: menu where
  "exampleMenu =
     Menu_new 101 0 0
       [\<lparr> label = ''Play'', callback = Some (UserCallback 0) \<rparr>,
        \<lparr> label = ''Quit'', callback = None \<rparr>]
       \<lparr> optOrientation = None, optGap = None, optWidth = None, optHeight = None \<rparr>"

text \<open>
  \<open>new Slider(0, 0, 0, 100, 0, 5, 'Volume', f1)\<close>: a track from x = 10 to x = 290 for
  the values 0 to 100 in steps of 5, at its minimum. The second slider has a step of 0
  and the value 50. Both compute with the arithmetic of the examples.
\<close>

definition exampleSlider :: "number slider" where
  "exampleSlider =
     Slider_new exactArith 102 (Num 0) (Num 0) (Num 0) (Num 100) (Num 0) (Num 5)
       (Some (UserCallback 1))
       \<lparr> soWidth = None, soHeight = None, soPadding = None \<rparr>"

definition zeroStepSlider :: "number slider" where
  "zeroStepSlider =
     Slider_new exactArith 103 (Num 0) (Num 0) (Num 0) (Num 100) (Num 50) (Num 0)
       (Some (UserCallback 1))
       \<lparr> soWidth = None, soHeight = None, soPadding = None \<rparr>"

text \<open>The effects of a handler that returned; none are kept of one that threw.\<close>

definition effectsOf :: "'a outcome \<Rightarrow> effect list" where
  "effectsOf r = (case r of Inl x \<Rightarrow> [] | Inr (a, es) \<Rightarrow> es)"

text \<open>
  A surface of 800 by 600 on which every character is 10 wide, the manager constructed
  on it with an input manager and no other option, and the event of the Escape key.
\<close>

definition exampleCanvas :: canvas where
  "exampleCanvas =
     \<lparr> canvasWidth = 800, canvasHeight = 600, measureText = (\<lambda>s. 10 * real (length s)) \<rparr>"

definition exampleCtorOptions :: ctor_options where
  "exampleCtorOptions =
     \<lparr> coBackgroundColor = None, coBackgroundGradient = None,
       coGradientDirection = None, coNoBackground = False, coInput = Some {} \<rparr>"

definition exampleUi :: "widget ui" where
  "exampleUi = projr (MarkJSCanvasUI_new exampleCanvas exampleCtorOptions)"

definition escapeKey :: keyEvent where
  "escapeKey = \<lparr> key = ''Escape'', shiftKey = False, ctrlKey = False, metaKey = False \<rparr>"

definition noModalOptions :: modal_options where
  "noModalOptions = \<lparr> moWidth = None, moHeight = None, moEscapeButtonLabel = None \<rparr>"

text \<open>
  The modal of the toolkit's own documentation: buttons Yes and No, and
  \<open>escapeButtonLabel: 'No'\<close>.
\<close>

definition confirmModal :: modal where
  "confirmModal =
     Modal_new exampleCanvas 107 108 ''Confirm Action'' ''Are you sure you want to proceed?''
       [\<lparr> label = ''Yes'', callback = Some (UserCallback 10) \<rparr>,
        \<lparr> label = ''No'', callback = Some (UserCallback 11) \<rparr>]
       \<lparr> moWidth = None, moHeight = None, moEscapeButtonLabel = Some ''No'' \<rparr>"

text \<open>
  Three controls for the example manager: a panel of 400 by 300 at the origin, the
  example menu on it, and a plain control of 100 by 40 at (150, 20), which lies over the
  right part of the first menu item.
\<close>

definition examplePanel :: "real control" where
  "examplePanel = Panel_new 104 0 0 (Some 400) (Some 300)"

definition exampleBox :: "real control" where
  "exampleBox = Control_new 105 150 20 100 40"

definition exampleControls :: "widget list" where
  "exampleControls = [PanelW examplePanel, MenuW exampleMenu, BaseW exampleBox]"

definition threeControls :: "widget ui" where
  "threeControls = run widgetClass (map AddControl exampleControls) exampleUi"

definition exampleOperations :: "widget operation list" where
  "exampleOperations =
     [AddControl (PanelW examplePanel), AddControl (MenuW exampleMenu),
      AddControl (BaseW exampleBox), Click 100 25, FocusPrevious,
      RemoveControl (BaseW exampleBox), FocusNext]"

text \<open>The same manager with a modal shown over its controls.\<close>

definition modalOverControls :: "widget ui" where
  "modalOverControls = snd (showModal ''T'' ''msg'' [] noModalOptions threeControls)"

text \<open>
  Two arguments of \<open>setTheme\<close>: \<open>{backgroundColor: '#0D47A1'}\<close> and
  \<open>{backgroundColor: ''}\<close>.
\<close>

definition blueTheme :: "string \<rightharpoonup> jsval" where
  "blueTheme = [''backgroundColor'' \<mapsto> JStr ''#0D47A1'']"

definition emptyColorTheme :: "string \<rightharpoonup> jsval" where
  "emptyColorTheme = [''backgroundColor'' \<mapsto> JStr []]"

text \<open>The manager with the modal, after \<open>showToast('Saved')\<close>.\<close>

definition toastOverModal :: "widget ui" where
  "toastOverModal = snd (showToast ''Saved'' None None modalOverControls)"

section \<open>Menu: the press feedback and the deferred callback\<close>

lemma Menu_updates_effects: "snd (Menu_updates dts m) = []"
  by (induction dts arbitrary: m) (auto simp: Menu_update_def Let_def split: prod.splits)

lemma Menu_updates_items: "items (fst (Menu_updates dts m)) = items m"
  by (induction dts arbitrary: m) (auto simp: Menu_update_def Let_def split: prod.splits)

lemma Menu_updates_selectedIndex: "selectedIndex (fst (Menu_updates dts m)) = selectedIndex m"
  by (induction dts arbitrary: m) (auto simp: Menu_update_def Let_def split: prod.splits)

lemma firstItemAt_Some: "firstItemAt m px py = Some i \<Longrightarrow> i < length (items m)"
  by (auto simp: firstItemAt_def find_Some_iff)

lemma itemAt_items: "items m' = items m \<Longrightarrow> itemAt m' k = itemAt m k"
  by (simp add: itemAt_def split: option.splits)

lemma itemAt_updates: "itemAt (fst (Menu_updates dts m)) k = itemAt m k"
  by (rule itemAt_items) (rule Menu_updates_items)

lemma click_registers_timer:
  assumes "firstItemAt m px py = Some i" and "callback (items m ! i) = Some cb"
  shows "Menu_handleClick px py m =
           (m\<lparr> selectedIndex := Some (int i), pressed := True, pressedTime := 0 \<rparr>,
            [SetTimeout (ItemCallback i) (pressedDuration m)])"
    and "Menu_fire (ItemCallback i) (fst (Menu_updates dts (fst (Menu_handleClick px py m))))
           = Inr [Call cb []]"
proof -
  have i: "i < length (items m)" using assms(1) by (rule firstItemAt_Some)
  show "Menu_handleClick px py m =
           (m\<lparr> selectedIndex := Some (int i), pressed := True, pressedTime := 0 \<rparr>,
            [SetTimeout (ItemCallback i) (pressedDuration m)])"
    using assms by (simp add: Menu_handleClick_def)
  then have "itemAt (fst (Menu_handleClick px py m)) (Some (int i)) = Some (items m ! i)"
    using i by (simp add: itemAt_def)
  then show "Menu_fire (ItemCallback i) (fst (Menu_updates dts (fst (Menu_handleClick px py m))))
               = Inr [Call cb []]"
    using assms(2) by (simp add: Menu_fire_def itemAt_updates)
qed

lemma press_registers_timer:
  assumes "itemAt m (selectedIndex m) = Some it" and "callback it = Some cb"
  shows "press m = Inr (m\<lparr> pressed := True, pressedTime := 0 \<rparr>,
                        [SetTimeout SelectedItemCallback (pressedDuration m)])"
    and "Menu_fire SelectedItemCallback
           (fst (Menu_updates dts (m\<lparr> pressed := True, pressedTime := 0 \<rparr>))) = Inr [Call cb []]"
proof -
  have a: "itemAt (m\<lparr> pressed := True, pressedTime := 0 \<rparr>) (selectedIndex m) = Some it"
    using assms(1) itemAt_items [of "m\<lparr> pressed := True, pressedTime := 0 \<rparr>" m] by simp
  show "press m = Inr (m\<lparr> pressed := True, pressedTime := 0 \<rparr>,
                        [SetTimeout SelectedItemCallback (pressedDuration m)])"
    using a assms(2) by (simp add: press_def Let_def)
  show "Menu_fire SelectedItemCallback
          (fst (Menu_updates dts (m\<lparr> pressed := True, pressedTime := 0 \<rparr>))) = Inr [Call cb []]"
    using a assms(2) by (simp add: Menu_fire_def itemAt_updates Menu_updates_selectedIndex)
qed

text \<open>
  C1, as the code has it. An activation calls nothing: when the item has a callback it
  registers one host timer (\<open>setTimeout\<close>) of delay \<open>pressedDuration\<close> for it, by a
  click on the item, by Enter or Space, or by \<open>activate\<close>. No run of \<open>update(dt)\<close>
  calls, whatever the sum of their \<open>deltaTime\<close>, calls a callback or registers a timer.
  The callback is called, once and with no argument, when the host fires the timer; the
  updates in between do not change which callback that is.
\<close>

theorem Menu_callback_waits_for_host_timer:
  "snd (Menu_updates dts m) = [] \<and>
   (firstItemAt m px py = Some i \<and> callback (items m ! i) = Some cb \<longrightarrow>
      Menu_handleClick px py m =
        (m\<lparr> selectedIndex := Some (int i), pressed := True, pressedTime := 0 \<rparr>,
         [SetTimeout (ItemCallback i) (pressedDuration m)]) \<and>
      Menu_fire (ItemCallback i) (fst (Menu_updates dts (fst (Menu_handleClick px py m))))
        = Inr [Call cb []]) \<and>
   (itemAt m (selectedIndex m) = Some it \<and> callback it = Some cb \<longrightarrow>
      Menu_activate m = Inr (m\<lparr> pressed := True, pressedTime := 0 \<rparr>,
                             [SetTimeout SelectedItemCallback (pressedDuration m)]) \<and>
      Menu_handleKeyDown ''Enter'' m = Menu_activate m \<and>
      Menu_handleKeyDown '' '' m = Menu_activate m \<and>
      Menu_fire SelectedItemCallback
        (fst (Menu_updates dts (m\<lparr> pressed := True, pressedTime := 0 \<rparr>))) = Inr [Call cb []])"
proof (intro conjI impI)
  show "snd (Menu_updates dts m) = []" by (rule Menu_updates_effects)
next
  assume "firstItemAt m px py = Some i \<and> callback (items m ! i) = Some cb"
  then show "Menu_handleClick px py m =
        (m\<lparr> selectedIndex := Some (int i), pressed := True, pressedTime := 0 \<rparr>,
         [SetTimeout (ItemCallback i) (pressedDuration m)])"
    by (simp add: click_registers_timer(1))
next
  assume "firstItemAt m px py = Some i \<and> callback (items m ! i) = Some cb"
  then show "Menu_fire (ItemCallback i) (fst (Menu_updates dts (fst (Menu_handleClick px py m))))
        = Inr [Call cb []]"
    by (simp add: click_registers_timer(2))
next
  assume "itemAt m (selectedIndex m) = Some it \<and> callback it = Some cb"
  then show "Menu_activate m = Inr (m\<lparr> pressed := True, pressedTime := 0 \<rparr>,
                             [SetTimeout SelectedItemCallback (pressedDuration m)])"
    by (simp add: Menu_activate_def press_registers_timer(1))
next
  show "Menu_handleKeyDown ''Enter'' m = Menu_activate m"
    by (simp add: Menu_handleKeyDown_def Menu_activate_def Let_def)
next
  show "Menu_handleKeyDown '' '' m = Menu_activate m"
    by (simp add: Menu_handleKeyDown_def Menu_activate_def Let_def)
next
  assume "itemAt m (selectedIndex m) = Some it \<and> callback it = Some cb"
  then show "Menu_fire SelectedItemCallback
        (fst (Menu_updates dts (m\<lparr> pressed := True, pressedTime := 0 \<rparr>))) = Inr [Call cb []]"
    using press_registers_timer(2) by blast
qed

theorem Menu_callback_waits_for_host_timer_witness:
  "(firstItemAt exampleMenu 100 25 = Some 0 \<and>
    callback (items exampleMenu ! 0) = Some (UserCallback 0)) \<and>
   (itemAt exampleMenu (selectedIndex exampleMenu)
      = Some \<lparr> label = ''Play'', callback = Some (UserCallback 0) \<rparr> \<and>
    callback \<lparr> label = ''Play'', callback = Some (UserCallback 0) \<rparr> = Some (UserCallback 0)) \<and>
   pressedDuration exampleMenu = 300 \<and>
   snd (Menu_updates [100, 100, 100] exampleMenu) = [] \<and>
   Menu_handleClick 100 25 exampleMenu =
     (exampleMenu\<lparr> selectedIndex := Some (int 0), pressed := True, pressedTime := 0 \<rparr>,
      [SetTimeout (ItemCallback 0) (pressedDuration exampleMenu)]) \<and>
   Menu_fire (ItemCallback 0)
     (fst (Menu_updates [100, 100, 100] (fst (Menu_handleClick 100 25 exampleMenu))))
     = Inr [Call (UserCallback 0) []] \<and>
   Menu_activate exampleMenu =
     Inr (exampleMenu\<lparr> pressed := True, pressedTime := 0 \<rparr>,
          [SetTimeout SelectedItemCallback (pressedDuration exampleMenu)]) \<and>
   Menu_handleKeyDown ''Enter'' exampleMenu = Menu_activate exampleMenu \<and>
   Menu_fire SelectedItemCallback
     (fst (Menu_updates [100, 100, 100] (exampleMenu\<lparr> pressed := True, pressedTime := 0 \<rparr>)))
     = Inr [Call (UserCallback 0) []]"
proof -
  have h1: "firstItemAt exampleMenu 100 25 = Some 0 \<and>
            callback (items exampleMenu ! 0) = Some (UserCallback 0)" by code_simp
  have h2: "itemAt exampleMenu (selectedIndex exampleMenu)
              = Some \<lparr> label = ''Play'', callback = Some (UserCallback 0) \<rparr> \<and>
            callback \<lparr> label = ''Play'', callback = Some (UserCallback 0) \<rparr> = Some (UserCallback 0)"
    by code_simp
  have h3: "pressedDuration exampleMenu = 300" by code_simp
  show ?thesis
    using Menu_callback_waits_for_host_timer
            [where m = exampleMenu and px = 100 and py = 25 and i = 0 and cb = "UserCallback 0"
               and it = "\<lparr> label = ''Play'', callback = Some (UserCallback 0) \<rparr>"
               and dts = "[100, 100, 100]"]
          h1 h2 h3
    by blast
qed

text \<open>
  The claim as stated fails: the press duration of the example menu is 300 ms, its first
  item is clicked, and three updates of 100 ms follow. The click has registered the
  timer, and neither the click nor the updates have called the callback, although the
  time passed to \<open>update\<close> has reached the press duration.
\<close>

theorem Menu_update_calls_nothing_counterexample:
  "pressedDuration exampleMenu \<le> sum_list [100, 100, 100] \<and>
   snd (Menu_handleClick 100 25 exampleMenu) = [SetTimeout (ItemCallback 0) 300] \<and>
   invoked (snd (Menu_handleClick 100 25 exampleMenu)
            @ snd (Menu_updates [100, 100, 100] (fst (Menu_handleClick 100 25 exampleMenu)))) = []"
  by code_simp

section \<open>Slider: when the callback fires\<close>

lemma newValueAt_val: "newValueAt A (s\<lparr> val := v \<rparr>) px = newValueAt A s px"
  by (simp add: newValueAt_def percentOf_def)

lemma updateValueFromX_twice:
  assumes "\<forall>a. fStrictEq A a a = (\<not> fIsNaN A a)" and "\<not> fIsNaN A (newValueAt A s px)"
  shows "snd (updateValueFromX A px (fst (updateValueFromX A px s))) = []"
proof (cases "fStrictEq A (newValueAt A s px) (val s)")
  case False
  then have "fst (updateValueFromX A px s) = s\<lparr> val := newValueAt A s px \<rparr>"
    by (simp add: updateValueFromX_def Let_def)
  then show ?thesis
    using assms by (simp add: updateValueFromX_def Let_def newValueAt_val)
next
  case True
  then show ?thesis by (simp add: updateValueFromX_def Let_def)
qed

lemma updateValueFromX_effects:
  assumes "sliderCallback s = Some cb"
  shows "snd (updateValueFromX A px s) =
           (if fStrictEq A (newValueAt A s px) (val s) then []
            else [Call cb [JNum (fValue A (newValueAt A s px))]])"
  using assms by (simp add: updateValueFromX_def notify_def Let_def)

lemma steps_notify:
  assumes "sliderCallback s = Some cb"
  shows "snd (Slider_handleKeyDown A ''ArrowLeft'' s)
           = [Call cb [JNum (fValue A (fMax A (minVal s) (fSub A (val s) (step s))))]]"
    and "snd (Slider_handleKeyDown A ''ArrowRight'' s)
           = [Call cb [JNum (fValue A (fMin A (maxVal s) (fAdd A (val s) (step s))))]]"
    and "snd (Slider_handleGamepadAxis A d s)
           = [Call cb [JNum (fValue A (if fLess A d (fLit A 0)
                                        then fMax A (minVal s) (fSub A (val s) (step s))
                                        else fMin A (maxVal s) (fAdd A (val s) (step s))))]]"
  using assms
  by (simp_all add: Slider_handleKeyDown_def Slider_handleGamepadAxis_def notify_def Let_def
        stepDown_def stepUp_def)

text \<open>
  C3, as the code has it, for the doubles whatever their arithmetic.
  \<open>updateValueFromX\<close> calls the callback, with the value it computes, exactly when that
  value is not \<open>===\<close> the current one; so, \<open>===\<close> holding between a double and itself
  unless it is \<open>NaN\<close>, a second call with the same x calls nothing, provided the
  computed value is not \<open>NaN\<close>. ArrowLeft and a gamepad step to the left compute
  \<open>Math.max(min, value - step)\<close>, ArrowRight and a gamepad step to the right
  \<open>Math.min(max, value + step)\<close>, and call the callback with it on every step, whether
  or not it differs from the value before.
\<close>

theorem Slider_callback_policy:
  "((\<forall>a. fStrictEq A a a = (\<not> fIsNaN A a)) \<and> \<not> fIsNaN A (newValueAt A s px) \<longrightarrow>
      snd (updateValueFromX A px (fst (updateValueFromX A px s))) = []) \<and>
   (sliderCallback s = Some cb \<longrightarrow>
      snd (updateValueFromX A px s) =
        (if fStrictEq A (newValueAt A s px) (val s) then []
         else [Call cb [JNum (fValue A (newValueAt A s px))]]) \<and>
      snd (Slider_handleKeyDown A ''ArrowLeft'' s)
        = [Call cb [JNum (fValue A (fMax A (minVal s) (fSub A (val s) (step s))))]] \<and>
      snd (Slider_handleKeyDown A ''ArrowRight'' s)
        = [Call cb [JNum (fValue A (fMin A (maxVal s) (fAdd A (val s) (step s))))]] \<and>
      snd (Slider_handleGamepadAxis A d s)
        = [Call cb [JNum (fValue A (if fLess A d (fLit A 0)
                                     then fMax A (minVal s) (fSub A (val s) (step s))
                                     else fMin A (maxVal s) (fAdd A (val s) (step s))))]])"
  using updateValueFromX_twice [where A = A and s = s and px = px]
        updateValueFromX_effects [where A = A and s = s and px = px and cb = cb]
        steps_notify(1,2) [where A = A and s = s and cb = cb]
        steps_notify(3) [where A = A and s = s and cb = cb and d = d]
  by blast

theorem Slider_callback_policy_witness:
  "\<not> fIsNaN exactArith (newValueAt exactArith exampleSlider (Num 150)) \<and>
   newValueAt exactArith exampleSlider (Num 150) = Num 50 \<and>
   sliderCallback exampleSlider = Some (UserCallback 1) \<and>
   invoked (snd (updateValueFromX exactArith (Num 150) exampleSlider)) = [UserCallback 1] \<and>
   snd (updateValueFromX exactArith (Num 150)
          (fst (updateValueFromX exactArith (Num 150) exampleSlider))) = [] \<and>
   snd (Slider_handleKeyDown exactArith ''ArrowLeft'' exampleSlider)
     = [Call (UserCallback 1)
          [JNum (fValue exactArith
                   (fMax exactArith (minVal exampleSlider)
                      (fSub exactArith (val exampleSlider) (step exampleSlider))))]]"
proof -
  have law: "\<forall>a. fStrictEq exactArith a a = (\<not> fIsNaN exactArith a)"
    by (simp add: exactArith_def)
  have h1: "\<not> fIsNaN exactArith (newValueAt exactArith exampleSlider (Num 150))"
    and h2: "newValueAt exactArith exampleSlider (Num 150) = Num 50"
    and h3: "sliderCallback exampleSlider = Some (UserCallback 1)"
    and h4: "invoked (snd (updateValueFromX exactArith (Num 150) exampleSlider)) = [UserCallback 1]"
    by code_simp+
  show ?thesis
    using Slider_callback_policy [of exactArith exampleSlider "Num 150" "UserCallback 1"]
          law h1 h2 h3 h4
    by blast
qed

text \<open>
  The claim as stated fails twice. The example slider is at its minimum 0 with a step
  of 5: ArrowLeft and a gamepad step to the left compute 0 again, leave the slider as it
  is, and yet call the callback. On the slider with a step of 0 the value computed for
  x = 150 is \<open>NaN\<close> (50 / 0 is infinite, and its product with 0 is \<open>NaN\<close>), and the
  second of two calls of \<open>updateValueFromX\<close> with that x calls the callback again.
\<close>

theorem Slider_step_at_minimum_counterexample:
  "val exampleSlider = Num 0 \<and>
   fst (Slider_handleKeyDown exactArith ''ArrowLeft'' exampleSlider) = exampleSlider \<and>
   invoked (snd (Slider_handleKeyDown exactArith ''ArrowLeft'' exampleSlider)) = [UserCallback 1] \<and>
   fst (Slider_handleGamepadAxis exactArith (Num (- 1)) exampleSlider) = exampleSlider \<and>
   invoked (snd (Slider_handleGamepadAxis exactArith (Num (- 1)) exampleSlider)) = [UserCallback 1] \<and>
   newValueAt exactArith zeroStepSlider (Num 150) = NaN \<and>
   invoked (snd (updateValueFromX exactArith (Num 150)
                   (fst (updateValueFromX exactArith (Num 150) zeroStepSlider))))
     = [UserCallback 1]"
  by code_simp

section \<open>Modal: Escape and gamepad button 1\<close>

lemma ok_lower: "toLowerCase ''OK'' = ''ok''"
  by code_simp

lemma indexOf_last:
  "P x \<Longrightarrow> \<forall>y\<in>set xs. \<not> P y \<Longrightarrow> indexOf P (xs @ [x]) = int (length xs)"
  by (induction xs) (auto simp: Let_def)

lemma splice1_last: "splice1 (length xs) (xs @ [x]) = xs"
  by (simp add: splice1_def)

lemma closeModal_last:
  assumes "\<forall>y\<in>set ms. mid y \<noteq> mid md" and "modals u = ms @ [md]"
  shows "closeModal (mid md) u = u\<lparr> modals := ms \<rparr>"
  using assms indexOf_last [of "\<lambda>x. mid x = mid md" md ms]
  by (simp add: closeModal_def Let_def splice1_last)

lemma Modal_new_fields:
  "mid (Modal_new cv i j ttl msg btns opts) = i"
  "buttons (Modal_new cv i j ttl msg [] opts) = [\<lparr> label = ''OK'', callback = Some (ModalClose i) \<rparr>]"
  "escapeButtonLabel (Modal_new cv i j ttl msg btns opts)
     = (case moEscapeButtonLabel opts of None \<Rightarrow> None | Some l \<Rightarrow> if l = [] then None else Some l)"
  by (simp_all add: Modal_new_def Let_def)

lemma escapeButton_OK:
  "buttons md = [\<lparr> label = ''OK'', callback = cb \<rparr>] \<Longrightarrow> escapeButtonLabel md = None
     \<Longrightarrow> escapeButton md = None"
  by (simp add: escapeButton_def ok_lower)

lemma list_update_last: "xs \<noteq> [] \<Longrightarrow> xs[length xs - Suc 0 := last xs] = xs"
  by (simp add: last_conv_nth)

lemma settleModal_same:
  assumes "modals u \<noteq> []"
  shows "settleModal (Inr (last (modals u), es)) u
           = Inr (runEffects (oid (buttonMenu (last (modals u)))) es u)"
  using assms by (simp add: settleModal_def Let_def list_update_last)

text \<open>
  Without \<open>escapeButtonLabel\<close> the two handlers look for the same button, the first one
  labelled exit, close or cancel in any case, and do the same.
\<close>

lemma gamepad_button_1_like_Escape_without_label:
  "escapeButtonLabel md = None \<Longrightarrow>
     Modal_handleGamepadButton 1 md = Modal_handleKeyDown ''Escape'' md"
  by (simp add: Modal_handleGamepadButton_def Modal_handleKeyDown_def escapeButton_def
        exitButton_def)

text \<open>
  C2 fails on the code. On the modal with the buttons Yes and No and
  \<open>escapeButtonLabel: 'No'\<close>, Escape calls the callback of No and closes the modal;
  gamepad button 1 looks for exit, close or cancel only, finds no button, calls nothing
  and closes the modal.
\<close>

theorem Modal_gamepad_button_1_ignores_escapeButtonLabel:
  "escapeButtonLabel confirmModal = Some ''No'' \<and>
   effectsOf (Modal_handleKeyDown ''Escape'' confirmModal)
     = [Call (UserCallback 11) [], CloseModal (mid confirmModal)] \<and>
   effectsOf (Modal_handleGamepadButton 1 confirmModal) = [CloseModal (mid confirmModal)]"
  by code_simp

text \<open>
  C8. \<open>showModal\<close> with an empty button array and no \<open>escapeButtonLabel\<close> gives a modal
  whose only button is the generated OK button. Escape, sent to the manager right after,
  takes that modal off the modal stack, which is again what it was before \<open>showModal\<close>,
  and the record of calls to the caller's functions is unchanged. The new modal is a new
  object: no modal already on the stack has its identity.
\<close>

theorem showModal_without_buttons_then_Escape:
  assumes "moEscapeButtonLabel opts = None"
    and "\<forall>md\<in>set (modals u). mid md \<noteq> fresh u"
    and "key e = ''Escape''"
  shows "buttons (fst (showModal ttl msg [] opts u))
           = [\<lparr> label = ''OK'', callback = Some (ModalClose (fresh u)) \<rparr>] \<and>
         onKeyDown I e (snd (showModal ttl msg [] opts u))
           = Inr ((snd (showModal ttl msg [] opts u))
                    \<lparr> modals := modals u, keys := insert ''Escape'' (keys u) \<rparr>) \<and>
         calls ((snd (showModal ttl msg [] opts u))
                  \<lparr> modals := modals u, keys := insert ''Escape'' (keys u) \<rparr>) = calls u"
proof -
  define md where "md = Modal_new (canvasOf u) (fresh u) (fresh u + 1) ttl msg [] opts"
  define u1 where "u1 = u\<lparr> modals := modals u @ [md], fresh := fresh u + 2 \<rparr>"
  have sm: "showModal ttl msg [] opts u = (md, u1)"
    by (simp add: showModal_def md_def u1_def Let_def)
  have b: "buttons md = [\<lparr> label = ''OK'', callback = Some (ModalClose (fresh u)) \<rparr>]"
    and m: "mid md = fresh u" and l: "escapeButtonLabel md = None"
    using assms(1) by (simp_all add: md_def Modal_new_fields)
  have eb: "escapeButton md = None" using b l by (rule escapeButton_OK)
  define u2 where "u2 = u1\<lparr> keys := insert ''Escape'' (keys u1) \<rparr>"
  have mods: "modals u2 = modals u @ [md]" by (simp add: u2_def u1_def)
  then have ne: "modals u2 \<noteq> []" and la: "last (modals u2) = md" by simp_all
  have cl: "closeModal (mid md) u2 = u2\<lparr> modals := modals u \<rparr>"
    using assms(2) mods by (intro closeModal_last) (simp_all add: m)
  have "onKeyDown I e u1 = settleModal (Modal_handleKeyDown ''Escape'' (last (modals u2))) u2"
    using assms(3) ne by (simp add: onKeyDown_def Let_def u2_def)
  also have "\<dots> = settleModal (Inr (last (modals u2), [CloseModal (mid md)])) u2"
    using eb la by (simp add: Modal_handleKeyDown_def callButton_def)
  also have "\<dots> = Inr (closeModal (mid md) u2)"
    using ne by (simp add: settleModal_same)
  finally have "onKeyDown I e u1 = Inr (u2\<lparr> modals := modals u \<rparr>)"
    using cl by simp
  then show ?thesis using b sm by (simp add: u2_def u1_def)
qed

theorem showModal_without_buttons_then_Escape_witness:
  "moEscapeButtonLabel noModalOptions = None \<and>
   modals (snd (showModal ''A'' ''first'' [] noModalOptions exampleUi)) \<noteq> [] \<and>
   key escapeKey = ''Escape'' \<and>
   buttons (fst (showModal ''T'' ''msg'' [] noModalOptions
                   (snd (showModal ''A'' ''first'' [] noModalOptions exampleUi))))
     = [\<lparr> label = ''OK'',
          callback = Some (ModalClose
                             (fresh (snd (showModal ''A'' ''first'' [] noModalOptions exampleUi)))) \<rparr>] \<and>
   onKeyDown widgetClass escapeKey
       (snd (showModal ''T'' ''msg'' [] noModalOptions
               (snd (showModal ''A'' ''first'' [] noModalOptions exampleUi))))
     = Inr ((snd (showModal ''T'' ''msg'' [] noModalOptions
                    (snd (showModal ''A'' ''first'' [] noModalOptions exampleUi))))
              \<lparr> modals := modals (snd (showModal ''A'' ''first'' [] noModalOptions exampleUi)),
                keys := insert ''Escape''
                          (keys (snd (showModal ''A'' ''first'' [] noModalOptions exampleUi))) \<rparr>)"
proof -
  have h1: "moEscapeButtonLabel noModalOptions = None" by (simp add: noModalOptions_def)
  have h2: "\<forall>md\<in>set (modals (snd (showModal ''A'' ''first'' [] noModalOptions exampleUi))).
              mid md \<noteq> fresh (snd (showModal ''A'' ''first'' [] noModalOptions exampleUi))"
    by (simp add: showModal_def Let_def Modal_new_fields exampleUi_def exampleCtorOptions_def
          MarkJSCanvasUI_new_def)
  have h3: "key escapeKey = ''Escape''" by (simp add: escapeKey_def)
  have h4: "modals (snd (showModal ''A'' ''first'' [] noModalOptions exampleUi)) \<noteq> []"
    by (simp add: showModal_def Let_def)
  show ?thesis
    using showModal_without_buttons_then_Escape [OF h1 h2 h3, of "''T''" "''msg''" widgetClass]
          h1 h3 h4
    by blast
qed

section \<open>Focus: wrap-around and range\<close>

lemma smod_nonneg: "0 \<le> a \<Longrightarrow> 0 < n \<Longrightarrow> (a::int) smod n = a mod n"
  by (cases "a = 0") (simp_all add: smod_int_alt_def)

lemma focusNext_step:
  assumes "controls u \<noteq> []" and "0 \<le> focusIndex u"
  shows "focusNext u = u\<lparr> focusIndex := (focusIndex u + 1) mod int (length (controls u)) \<rparr>"
  using assms by (simp add: focusNext_def smod_nonneg)

lemma focusPrevious_step:
  assumes "controls u \<noteq> []" and "0 \<le> focusIndex u"
  shows "focusPrevious u = u\<lparr> focusIndex := (focusIndex u - 1) mod int (length (controls u)) \<rparr>"
proof -
  let ?n = "int (length (controls u))"
  have n: "0 < ?n" using assms(1) by simp
  then have "0 \<le> focusIndex u - 1 + ?n" using assms(2) by linarith
  then have "(focusIndex u - 1 + ?n) smod ?n = (focusIndex u - 1 + ?n) mod ?n"
    using n by (rule smod_nonneg)
  also have "\<dots> = (focusIndex u - 1) mod ?n" by simp
  finally show ?thesis using assms(1) by (simp add: focusPrevious_def)
qed

lemma focusNext_funpow:
  assumes "controls u \<noteq> []" and "0 \<le> focusIndex u" and "focusIndex u < int (length (controls u))"
  shows "(focusNext ^^ k) u = u\<lparr> focusIndex := (focusIndex u + int k) mod int (length (controls u)) \<rparr>"
proof (induction k)
  case 0
  then show ?case using assms by simp
next
  case (Suc k)
  let ?n = "int (length (controls u))"
  let ?v = "u\<lparr> focusIndex := (focusIndex u + int k) mod ?n \<rparr>"
  have n: "0 < ?n" using assms(1) by simp
  have "(focusNext ^^ Suc k) u = focusNext ?v" using Suc by simp
  also have "\<dots> = ?v\<lparr> focusIndex := (focusIndex ?v + 1) mod int (length (controls ?v)) \<rparr>"
    using assms(1) n by (intro focusNext_step) simp_all
  also have "\<dots> = u\<lparr> focusIndex := ((focusIndex u + int k) mod ?n + 1) mod ?n \<rparr>" by simp
  also have "((focusIndex u + int k) mod ?n + 1) mod ?n = (focusIndex u + int (Suc k)) mod ?n"
    by (simp add: mod_add_right_eq ac_simps)
  finally show ?case .
qed

lemma focusPrevious_funpow:
  assumes "controls u \<noteq> []" and "0 \<le> focusIndex u" and "focusIndex u < int (length (controls u))"
  shows "(focusPrevious ^^ k) u = u\<lparr> focusIndex := (focusIndex u - int k) mod int (length (controls u)) \<rparr>"
proof (induction k)
  case 0
  then show ?case using assms by simp
next
  case (Suc k)
  let ?n = "int (length (controls u))"
  let ?v = "u\<lparr> focusIndex := (focusIndex u - int k) mod ?n \<rparr>"
  have n: "0 < ?n" using assms(1) by simp
  have "(focusPrevious ^^ Suc k) u = focusPrevious ?v" using Suc by simp
  also have "\<dots> = ?v\<lparr> focusIndex := (focusIndex ?v - 1) mod int (length (controls ?v)) \<rparr>"
    using assms(1) n by (intro focusPrevious_step) simp_all
  also have "\<dots> = u\<lparr> focusIndex := ((focusIndex u - int k) mod ?n - 1) mod ?n \<rparr>" by simp
  also have "((focusIndex u - int k) mod ?n - 1) mod ?n = (focusIndex u - int (Suc k)) mod ?n"
    by (simp add: mod_diff_left_eq algebra_simps)
  finally show ?case .
qed



lemma closeModal_frame [simp]:
  "controls (closeModal m u) = controls u" "focusIndex (closeModal m u) = focusIndex u"
  by (simp_all add: closeModal_def Let_def)

lemma invoke_frame [simp]:
  "controls (invoke cb args u) = controls u \<and> focusIndex (invoke cb args u) = focusIndex u"
  by (induction cb args u rule: invoke.induct) simp_all

lemma runEffect_frame [simp]:
  "controls (runEffect ow e u) = controls u \<and> focusIndex (runEffect ow e u) = focusIndex u"
  by (cases e) simp_all

lemma runEffects_frame [simp]:
  "controls (runEffects ow es u) = controls u \<and> focusIndex (runEffects ow es u) = focusIndex u"
  by (induction es arbitrary: u) simp_all

lemma settleControl_frame:
  "controls (stateOf (settleControl I i r u)) = (controls u)[i := objectOf r]"
  "focusIndex (stateOf (settleControl I i r u)) = focusIndex u"
  by (auto simp: settleControl_def stateOf_def objectOf_def split: sum.splits prod.splits)

lemma settleModal_frame:
  "controls (stateOf (settleModal r u)) = controls u"
  "focusIndex (stateOf (settleModal r u)) = focusIndex u"
  by (auto simp: settleModal_def stateOf_def Let_def split: sum.splits prod.splits)

lemma scanClick_focus:
  assumes "k \<le> length (controls u)" and "focusInRange u"
  shows "focusInRange (stateOf (scanClick I px py k u))"
  using assms
proof (induction k)
  case 0
  then show ?case by (simp add: stateOf_def)
next
  case (Suc k)
  show ?case
  proof (cases "containsPointOf I (controls u ! k) px py")
    case True
    have "focusInRange (u\<lparr> focusIndex := int k \<rparr>)"
      using Suc.prems by (auto simp: focusInRange_def)
    then show ?thesis using True Suc.prems
      by (cases "handleClickOf I (controls u ! k)")
         (auto simp: Let_def stateOf_def focusInRange_def settleControl_def split: sum.splits prod.splits)
  next
    case False
    then show ?thesis using Suc by (simp add: Let_def)
  qed
qed

lemma onMouseClick_focus:
  "focusInRange u \<Longrightarrow> focusInRange (stateOf (onMouseClick I px py u))"
  using scanClick_focus [of "length (controls u)" u I px py]
  by (simp add: onMouseClick_def focusInRange_def settleModal_frame)

lemma indexOf_range: "- 1 \<le> indexOf P xs \<and> indexOf P xs < int (length xs)"
  by (induction xs) (auto simp: Let_def)

lemma indexOf_none: "(indexOf P xs = - 1) = (\<forall>x\<in>set xs. \<not> P x)"
proof (induction xs)
  case Nil
  then show ?case by simp
next
  case (Cons a xs)
  have "- 1 \<le> indexOf P xs" using indexOf_range [of P xs] by simp
  then show ?case using Cons by (auto simp: Let_def)
qed

lemma indexOf_found: "(- 1 < indexOf P xs) = (\<exists>x\<in>set xs. P x)"
  using indexOf_range [of P xs] indexOf_none [of P xs] by auto

lemma length_splice1: "i < length xs \<Longrightarrow> length (splice1 i xs) = length xs - 1"
  by (simp add: splice1_def)

lemma focusNext_focus: "focusInRange u \<Longrightarrow> focusInRange (focusNext u)"
proof -
  assume a: "focusInRange u"
  show ?thesis
  proof (cases "controls u = []")
    case True then show ?thesis using a by (simp add: focusNext_def)
  next
    case False
    let ?n = "int (length (controls u))"
    define m where "m = (focusIndex u + 1) mod ?n"
    have n: "0 < ?n" using False by simp
    have f: "0 \<le> focusIndex u + 1" using a False by (auto simp: focusInRange_def)
    then have "(focusIndex u + 1) smod ?n = m"
      unfolding m_def using n by (rule smod_nonneg)
    then have eq: "focusNext u = u\<lparr> focusIndex := m \<rparr>"
      using False by (simp add: focusNext_def)
    have "0 \<le> m" and "m < ?n" using n by (simp_all add: m_def)
    then show ?thesis using False by (simp add: eq focusInRange_def)
  qed
qed

lemma focusPrevious_focus: "focusInRange u \<Longrightarrow> focusInRange (focusPrevious u)"
proof -
  assume a: "focusInRange u"
  show ?thesis
  proof (cases "controls u = []")
    case True then show ?thesis using a by (simp add: focusPrevious_def)
  next
    case False
    let ?n = "int (length (controls u))"
    define m where "m = (focusIndex u - 1 + ?n) mod ?n"
    have n: "0 < ?n" using False by simp
    have f: "0 \<le> focusIndex u" using a False by (auto simp: focusInRange_def)
    then have "0 \<le> focusIndex u - 1 + ?n" using n by linarith
    then have "(focusIndex u - 1 + ?n) smod ?n = m"
      unfolding m_def using n by (rule smod_nonneg)
    then have eq: "focusPrevious u = u\<lparr> focusIndex := m \<rparr>"
      using False by (simp add: focusPrevious_def)
    have "0 \<le> m" and "m < ?n" using n by (simp_all add: m_def)
    then show ?thesis using False by (simp add: eq focusInRange_def)
  qed
qed

lemma addControl_focus: "focusInRange u \<Longrightarrow> focusInRange (snd (addControl I c u))"
  by (auto simp: addControl_def focusInRange_def Let_def)

lemma removeControl_focus: "focusInRange u \<Longrightarrow> focusInRange (removeControl I c u)"
proof -
  assume a: "focusInRange u"
  let ?P = "\<lambda>d. identity I d = identity I c"
  let ?i = "indexOf ?P (controls u)"
  show ?thesis
  proof (cases "- 1 < ?i")
    case False
    then show ?thesis using a by (simp add: removeControl_def Let_def)
  next
    case True
    have r: "?i < int (length (controls u))" using indexOf_range [of ?P "controls u"] by simp
    then have l: "length (splice1 (nat ?i) (controls u)) = length (controls u) - 1"
      using True by (intro length_splice1) linarith
    have ne: "controls u \<noteq> []" using r True by auto
    show ?thesis using True a l ne
      by (auto simp: removeControl_def Let_def focusInRange_def)
  qed
qed

lemma applyOperation_focus: "focusInRange u \<Longrightarrow> focusInRange (applyOperation I op u)"
  by (cases op)
     (simp_all add: addControl_focus removeControl_focus focusNext_focus focusPrevious_focus
        onMouseClick_focus, simp add: removeAllControls_def focusInRange_def)

lemma run_focus: "focusInRange u \<Longrightarrow> focusInRange (run I ops u)"
  by (induction ops arbitrary: u) (simp_all add: applyOperation_focus)

lemma new_focus: "MarkJSCanvasUI_new cv opts = Inr u \<Longrightarrow> focusInRange u"
  by (auto simp: MarkJSCanvasUI_new_def focusInRange_def split: option.splits)

lemma addControl_fields:
  "controls (snd (addControl I c u)) = controls u @ [applyThemeOf I (theme u) (defaultFont u) c]"
  "theme (snd (addControl I c u)) = theme u"
  "defaultFont (snd (addControl I c u)) = defaultFont u"
  by (simp_all add: addControl_def Let_def)

lemma run_adds:
  "controls (run I (map AddControl cs) u)
     = controls u @ map (applyThemeOf I (theme u) (defaultFont u)) cs"
  by (induction cs arbitrary: u) (simp_all add: addControl_fields)

lemma removeControl_length:
  assumes "\<exists>d\<in>set (controls u). identity I d = identity I c"
  shows "length (controls (removeControl I c u)) = length (controls u) - 1"
proof -
  let ?P = "\<lambda>d. identity I d = identity I c"
  let ?i = "indexOf ?P (controls u)"
  have f: "- 1 < ?i" using assms by (simp add: indexOf_found)
  have r: "?i < int (length (controls u))" using indexOf_range [of ?P "controls u"] by simp
  then have "length (splice1 (nat ?i) (controls u)) = length (controls u) - 1"
    using f by (intro length_splice1) linarith
  then show ?thesis using f by (simp add: removeControl_def Let_def)
qed

lemma exampleUi_new: "MarkJSCanvasUI_new exampleCanvas exampleCtorOptions = Inr exampleUi"
  by (simp add: exampleUi_def exampleCtorOptions_def MarkJSCanvasUI_new_def)

text \<open>
  C6. With N controls and the focus on one of them, N calls of \<open>focusNext\<close>, and N calls
  of \<open>focusPrevious\<close>, give back the manager they started from; with no control each
  call leaves the manager as it is.
\<close>

theorem focus_wraps_around:
  "(controls u \<noteq> [] \<and> 0 \<le> focusIndex u \<and> focusIndex u < int (length (controls u)) \<longrightarrow>
      (focusNext ^^ length (controls u)) u = u \<and> (focusPrevious ^^ length (controls u)) u = u) \<and>
   (controls u = [] \<longrightarrow> focusNext u = u \<and> focusPrevious u = u)"
proof (intro conjI impI)
  assume a: "controls u \<noteq> [] \<and> 0 \<le> focusIndex u \<and> focusIndex u < int (length (controls u))"
  then show "(focusNext ^^ length (controls u)) u = u"
    by (simp add: focusNext_funpow)
  from a show "(focusPrevious ^^ length (controls u)) u = u"
    by (simp add: focusPrevious_funpow)
qed (simp_all add: focusNext_def focusPrevious_def)

theorem focus_wraps_around_witness:
  "(controls threeControls \<noteq> [] \<and> 0 \<le> focusIndex threeControls \<and>
    focusIndex threeControls < int (length (controls threeControls))) \<and>
   length (controls threeControls) = 3 \<and>
   (focusNext ^^ length (controls threeControls)) threeControls = threeControls \<and>
   (focusPrevious ^^ length (controls threeControls)) threeControls = threeControls \<and>
   controls exampleUi = [] \<and>
   focusNext exampleUi = exampleUi \<and> focusPrevious exampleUi = exampleUi"
proof -
  have h1: "controls threeControls \<noteq> [] \<and> 0 \<le> focusIndex threeControls \<and>
            focusIndex threeControls < int (length (controls threeControls))"
    by code_simp
  have h2: "length (controls threeControls) = 3" by code_simp
  have h3: "controls exampleUi = []" by code_simp
  show ?thesis
    using focus_wraps_around [of threeControls] focus_wraps_around [of exampleUi] h1 h2 h3
    by blast
qed

text \<open>
  C5. A manager is constructed and any sequence of \<open>addControl\<close>, \<open>removeControl\<close>,
  \<open>removeAllControls\<close>, \<open>focusNext\<close>, \<open>focusPrevious\<close> and clicks is applied to it:
  the focus index is then between -1 and the number of controls minus one, and it is -1
  exactly when there is no control. In particular, when the controls \<open>cs\<close> are added to
  the new manager and one of them is removed, \<open>length cs - 1\<close> controls remain, the focus
  index is between -1 and \<open>length cs - 2\<close>, and it is -1 exactly when none remains.
  \<open>applyTheme\<close> changes a control in place: it keeps its identity.
\<close>

theorem focus_index_in_range:
  assumes "MarkJSCanvasUI_new cv opts = Inr u0"
  shows "focusInRange (run I ops u0) \<and>
         ((\<forall>th f d. identity I (applyThemeOf I th f d) = identity I d) \<and> c \<in> set cs \<longrightarrow>
            length (controls (removeControl I c (run I (map AddControl cs) u0))) = length cs - 1 \<and>
            - 1 \<le> focusIndex (removeControl I c (run I (map AddControl cs) u0)) \<and>
            focusIndex (removeControl I c (run I (map AddControl cs) u0)) \<le> int (length cs) - 2 \<and>
            ((focusIndex (removeControl I c (run I (map AddControl cs) u0)) = - 1)
               = (controls (removeControl I c (run I (map AddControl cs) u0)) = [])))"
proof (intro conjI impI)
  have f0: "focusInRange u0" using assms by (rule new_focus)
  then show "focusInRange (run I ops u0)" by (rule run_focus)
  let ?u1 = "run I (map AddControl cs) u0"
  let ?u2 = "removeControl I c ?u1"
  assume h: "(\<forall>th f d. identity I (applyThemeOf I th f d) = identity I d) \<and> c \<in> set cs"
  have e: "controls u0 = []"
    using assms by (auto simp: MarkJSCanvasUI_new_def split: option.splits)
  have c1: "controls ?u1 = map (applyThemeOf I (theme u0) (defaultFont u0)) cs"
    by (simp add: run_adds e)
  have "applyThemeOf I (theme u0) (defaultFont u0) c \<in> set (controls ?u1)"
    using h c1 by simp
  then have "\<exists>d\<in>set (controls ?u1). identity I d = identity I c" using h by blast
  then have "length (controls ?u2) = length (controls ?u1) - 1" by (rule removeControl_length)
  then show len: "length (controls ?u2) = length cs - 1" by (simp add: c1)
  have pos: "0 < length cs" using h by (auto simp: length_pos_if_in_set)
  have "focusInRange ?u2" using f0 by (intro removeControl_focus run_focus)
  then show "- 1 \<le> focusIndex ?u2" and "focusIndex ?u2 \<le> int (length cs) - 2"
    and "(focusIndex ?u2 = - 1) = (controls ?u2 = [])"
    using len pos by (auto simp: focusInRange_def)
qed

theorem focus_index_in_range_witness:
  "MarkJSCanvasUI_new exampleCanvas exampleCtorOptions = Inr exampleUi \<and>
   focusInRange (run widgetClass exampleOperations exampleUi) \<and>
   focusIndex (run widgetClass exampleOperations exampleUi) = 1 \<and>
   length (controls (run widgetClass exampleOperations exampleUi)) = 2 \<and>
   MenuW exampleMenu \<in> set exampleControls \<and>
   length (controls (removeControl widgetClass (MenuW exampleMenu)
                       (run widgetClass (map AddControl exampleControls) exampleUi)))
     = length exampleControls - 1 \<and>
   focusIndex (removeControl widgetClass (MenuW exampleMenu)
                 (run widgetClass (map AddControl exampleControls) exampleUi))
     \<le> int (length exampleControls) - 2"
proof -
  have h1: "\<forall>th f d. identity widgetClass (applyThemeOf widgetClass th f d) = identity widgetClass d"
    by (simp add: widgetClass_def)
  have h2: "MenuW exampleMenu \<in> set exampleControls" by (simp add: exampleControls_def)
  have h3: "focusIndex (run widgetClass exampleOperations exampleUi) = 1" by code_simp
  have h4: "length (controls (run widgetClass exampleOperations exampleUi)) = 2" by code_simp
  show ?thesis
    using focus_index_in_range
            [OF exampleUi_new, of widgetClass exampleOperations "MenuW exampleMenu" exampleControls]
          exampleUi_new h1 h2 h3 h4
    by blast
qed

section \<open>Click dispatch\<close>

lemma scanClick_skip:
  assumes "\<forall>j. i \<le> j \<and> j < k \<longrightarrow> \<not> containsPointOf I (controls u ! j) px py" and "i \<le> k"
  shows "scanClick I px py k u = scanClick I px py i u"
  using assms
proof (induction k)
  case 0
  then show ?case by simp
next
  case (Suc k)
  show ?case
  proof (cases "i = Suc k")
    case True
    then show ?thesis by simp
  next
    case False
    then have ik: "i \<le> k" using Suc.prems(2) by simp
    have "\<not> containsPointOf I (controls u ! k) px py" using Suc.prems(1) ik by simp
    then have "scanClick I px py (Suc k) u = scanClick I px py k u" by (simp add: Let_def)
    also have "\<dots> = scanClick I px py i u" using Suc.IH Suc.prems(1) ik by simp
    finally show ?thesis .
  qed
qed

lemma scanClick_hit:
  assumes "containsPointOf I (controls u ! i) px py"
  shows "scanClick I px py (Suc i) u =
           (case handleClickOf I (controls u ! i) of
              None \<Rightarrow> Inr (u\<lparr> focusIndex := int i \<rparr>)
            | Some h \<Rightarrow> settleControl I i (h px py) (u\<lparr> focusIndex := int i \<rparr>))"
  using assms by (simp add: Let_def)

lemma modal_click_miss:
  assumes "modals u \<noteq> []" and "firstItemAt (buttonMenu (last (modals u))) px py = None"
  shows "onMouseClick I px py u = Inr u"
  using assms
  by (simp add: onMouseClick_def Modal_handleClick_def Menu_isOverInteractiveArea_def
        settleModal_same)

lemma modal_click_hit:
  assumes "modals u \<noteq> []" and "firstItemAt (buttonMenu (last (modals u))) px py = Some k"
  shows "onMouseClick I px py u =
           Inr (u\<lparr> modals := (modals u)[length (modals u) - 1 :=
                      (last (modals u))\<lparr> buttonMenu :=
                         (buttonMenu (last (modals u)))
                           \<lparr> selectedIndex := Some (int k), pressed := True, pressedTime := 0 \<rparr> \<rparr>],
                   timers := timers u @
                      (if callback (items (buttonMenu (last (modals u))) ! k) \<noteq> None
                       then [MenuTimer (oid (buttonMenu (last (modals u)))) (ItemCallback k)
                               (pressedDuration (buttonMenu (last (modals u))))]
                       else []) \<rparr>)"
  using assms
  by (simp add: onMouseClick_def Modal_handleClick_def Menu_isOverInteractiveArea_def
        Menu_handleClick_def settleModal_def Let_def)

text \<open>
  C4. With a modal on the stack a click goes to the topmost modal (the last of the
  stack) and to nothing else: the controls and the focus index stay as they are. If the
  point is on no button of that modal the manager is unchanged; if it is on button \<open>k\<close>
  the button menu of that modal selects \<open>k\<close> and is pressed, the timer for the button's
  callback is registered, and nothing else changes. With no modal, let \<open>i\<close> be the
  greatest index of a control whose \<open>containsPoint\<close> accepts the point (a Panel accepts
  none): the focus index becomes \<open>i\<close>, that control's click handler, if it has one,
  runs once, and every other control is left as it is. When no control accepts the point
  the manager is unchanged.
\<close>

theorem click_dispatch:
  "(modals u \<noteq> [] \<longrightarrow>
      onMouseClick I px py u = settleModal (Inr (Modal_handleClick px py (last (modals u)))) u \<and>
      controls (stateOf (onMouseClick I px py u)) = controls u \<and>
      focusIndex (stateOf (onMouseClick I px py u)) = focusIndex u \<and>
      (firstItemAt (buttonMenu (last (modals u))) px py = None \<longrightarrow>
         onMouseClick I px py u = Inr u) \<and>
      (firstItemAt (buttonMenu (last (modals u))) px py = Some k \<longrightarrow>
         onMouseClick I px py u =
           Inr (u\<lparr> modals := (modals u)[length (modals u) - 1 :=
                      (last (modals u))\<lparr> buttonMenu :=
                         (buttonMenu (last (modals u)))
                           \<lparr> selectedIndex := Some (int k), pressed := True, pressedTime := 0 \<rparr> \<rparr>],
                   timers := timers u @
                      (if callback (items (buttonMenu (last (modals u))) ! k) \<noteq> None
                       then [MenuTimer (oid (buttonMenu (last (modals u)))) (ItemCallback k)
                               (pressedDuration (buttonMenu (last (modals u))))]
                       else []) \<rparr>))) \<and>
   (modals u = [] \<and> i < length (controls u) \<and> containsPointOf I (controls u ! i) px py \<and>
    (\<forall>j. i < j \<and> j < length (controls u) \<longrightarrow> \<not> containsPointOf I (controls u ! j) px py) \<longrightarrow>
      onMouseClick I px py u =
        (case handleClickOf I (controls u ! i) of
           None \<Rightarrow> Inr (u\<lparr> focusIndex := int i \<rparr>)
         | Some h \<Rightarrow> settleControl I i (h px py) (u\<lparr> focusIndex := int i \<rparr>)) \<and>
      focusIndex (stateOf (onMouseClick I px py u)) = int i \<and>
      controls (stateOf (onMouseClick I px py u)) =
        (case handleClickOf I (controls u ! i) of
           None \<Rightarrow> controls u
         | Some h \<Rightarrow> (controls u)[i := objectOf (h px py)])) \<and>
   (modals u = [] \<and> (\<forall>j. j < length (controls u) \<longrightarrow> \<not> containsPointOf I (controls u ! j) px py) \<longrightarrow>
      onMouseClick I px py u = Inr u)"
proof (intro conjI impI)
  assume ne: "modals u \<noteq> []"
  then show m: "onMouseClick I px py u = settleModal (Inr (Modal_handleClick px py (last (modals u)))) u"
    by (simp add: onMouseClick_def)
  show "controls (stateOf (onMouseClick I px py u)) = controls u"
    and "focusIndex (stateOf (onMouseClick I px py u)) = focusIndex u"
    by (simp_all add: m settleModal_frame)
  {
    assume "firstItemAt (buttonMenu (last (modals u))) px py = None"
    with ne show "onMouseClick I px py u = Inr u" by (rule modal_click_miss)
  }
  {
    assume "firstItemAt (buttonMenu (last (modals u))) px py = Some k"
    with ne show "onMouseClick I px py u =
           Inr (u\<lparr> modals := (modals u)[length (modals u) - 1 :=
                      (last (modals u))\<lparr> buttonMenu :=
                         (buttonMenu (last (modals u)))
                           \<lparr> selectedIndex := Some (int k), pressed := True, pressedTime := 0 \<rparr> \<rparr>],
                   timers := timers u @
                      (if callback (items (buttonMenu (last (modals u))) ! k) \<noteq> None
                       then [MenuTimer (oid (buttonMenu (last (modals u)))) (ItemCallback k)
                               (pressedDuration (buttonMenu (last (modals u))))]
                       else []) \<rparr>)"
      by (rule modal_click_hit)
  }
next
  assume h: "modals u = [] \<and> i < length (controls u) \<and> containsPointOf I (controls u ! i) px py \<and>
    (\<forall>j. i < j \<and> j < length (controls u) \<longrightarrow> \<not> containsPointOf I (controls u ! j) px py)"
  have "onMouseClick I px py u = scanClick I px py (length (controls u)) u"
    using h by (simp add: onMouseClick_def)
  also have "\<dots> = scanClick I px py (Suc i) u"
    using h by (intro scanClick_skip) auto
  also have "\<dots> = (case handleClickOf I (controls u ! i) of
           None \<Rightarrow> Inr (u\<lparr> focusIndex := int i \<rparr>)
         | Some h \<Rightarrow> settleControl I i (h px py) (u\<lparr> focusIndex := int i \<rparr>))"
    using h by (intro scanClick_hit) simp
  finally show r: "onMouseClick I px py u =
        (case handleClickOf I (controls u ! i) of
           None \<Rightarrow> Inr (u\<lparr> focusIndex := int i \<rparr>)
         | Some h \<Rightarrow> settleControl I i (h px py) (u\<lparr> focusIndex := int i \<rparr>))" .
  show "focusIndex (stateOf (onMouseClick I px py u)) = int i"
    by (cases "handleClickOf I (controls u ! i)")
       (simp_all add: r settleControl_frame, simp add: stateOf_def)
  show "controls (stateOf (onMouseClick I px py u)) =
        (case handleClickOf I (controls u ! i) of
           None \<Rightarrow> controls u
         | Some h \<Rightarrow> (controls u)[i := objectOf (h px py)])"
    by (cases "handleClickOf I (controls u ! i)")
       (simp_all add: r settleControl_frame, simp add: stateOf_def)
next
  assume h: "modals u = [] \<and> (\<forall>j. j < length (controls u) \<longrightarrow> \<not> containsPointOf I (controls u ! j) px py)"
  have "onMouseClick I px py u = scanClick I px py (length (controls u)) u"
    using h by (simp add: onMouseClick_def)
  also have "\<dots> = scanClick I px py 0 u"
    using h by (intro scanClick_skip) auto
  finally show "onMouseClick I px py u = Inr u" by simp
qed

theorem click_dispatch_witness:
  "modals threeControls = [] \<and> length (controls threeControls) = 3 \<and>
   containsPointOf widgetClass (controls threeControls ! 1) 100 25 \<and>
   \<not> containsPointOf widgetClass (controls threeControls ! 2) 100 25 \<and>
   focusIndex (stateOf (onMouseClick widgetClass 100 25 threeControls)) = int 1 \<and>
   timers (stateOf (onMouseClick widgetClass 100 25 threeControls))
     = [MenuTimer 101 (ItemCallback 0) 300] \<and>
   containsPointOf widgetClass (controls threeControls ! 1) 160 25 \<and>
   containsPointOf widgetClass (controls threeControls ! 2) 160 25 \<and>
   focusIndex (stateOf (onMouseClick widgetClass 160 25 threeControls)) = int 2 \<and>
   timers (stateOf (onMouseClick widgetClass 160 25 threeControls)) = [] \<and>
   containsPoint examplePanel 300 200 \<and>
   onMouseClick widgetClass 300 200 threeControls = Inr threeControls \<and>
   modals modalOverControls \<noteq> [] \<and>
   controls (stateOf (onMouseClick widgetClass 100 25 modalOverControls))
     = controls modalOverControls \<and>
   focusIndex (stateOf (onMouseClick widgetClass 100 25 modalOverControls))
     = focusIndex modalOverControls \<and>
   firstItemAt (buttonMenu (last (modals modalOverControls))) 100 25 = None \<and>
   onMouseClick widgetClass 100 25 modalOverControls = Inr modalOverControls \<and>
   firstItemAt (buttonMenu (last (modals modalOverControls))) 400 360 = Some 0 \<and>
   \<not> pressed (buttonMenu (last (modals modalOverControls))) \<and>
   pressed (buttonMenu (last (modals
              (stateOf (onMouseClick widgetClass 400 360 modalOverControls))))) \<and>
   timers (stateOf (onMouseClick widgetClass 400 360 modalOverControls))
     = [MenuTimer 1 (ItemCallback 0) 300] \<and>
   controls (stateOf (onMouseClick widgetClass 400 360 modalOverControls))
     = controls modalOverControls \<and>
   onMouseClick widgetClass 400 360 modalOverControls =
     Inr (modalOverControls
            \<lparr> modals := (modals modalOverControls)[length (modals modalOverControls) - 1 :=
                 (last (modals modalOverControls))\<lparr> buttonMenu :=
                    (buttonMenu (last (modals modalOverControls)))
                      \<lparr> selectedIndex := Some (int 0), pressed := True, pressedTime := 0 \<rparr> \<rparr>],
              timers := timers modalOverControls @
                 (if callback (items (buttonMenu (last (modals modalOverControls))) ! 0) \<noteq> None
                  then [MenuTimer (oid (buttonMenu (last (modals modalOverControls))))
                          (ItemCallback 0)
                          (pressedDuration (buttonMenu (last (modals modalOverControls))))]
                  else []) \<rparr>)"
proof -
  have m: "modals threeControls = []" and l: "length (controls threeControls) = 3"
    by code_simp+
  have a1: "containsPointOf widgetClass (controls threeControls ! 1) 100 25"
    and a2: "\<not> containsPointOf widgetClass (controls threeControls ! 2) 100 25"
    and b1: "containsPointOf widgetClass (controls threeControls ! 1) 160 25"
    and b2: "containsPointOf widgetClass (controls threeControls ! 2) 160 25"
    by code_simp+
  have c: "\<not> containsPointOf widgetClass (controls threeControls ! 0) 300 200"
          "\<not> containsPointOf widgetClass (controls threeControls ! 1) 300 200"
          "\<not> containsPointOf widgetClass (controls threeControls ! 2) 300 200"
    by code_simp+
  have t1: "timers (stateOf (onMouseClick widgetClass 100 25 threeControls))
              = [MenuTimer 101 (ItemCallback 0) 300]"
    and t2: "timers (stateOf (onMouseClick widgetClass 160 25 threeControls)) = []"
    by code_simp+
  have p: "containsPoint examplePanel 300 200" by code_simp
  have mm: "modals modalOverControls \<noteq> []"
    by (simp add: modalOverControls_def showModal_def Let_def)
  have two: "\<And>j::nat. 1 < j \<and> j < 3 \<Longrightarrow> j = 2" by arith
  have h1: "\<forall>j. 1 < j \<and> j < length (controls threeControls)
              \<longrightarrow> \<not> containsPointOf widgetClass (controls threeControls ! j) 100 25"
    using a2 l two by metis
  have h2: "\<forall>j. 2 < j \<and> j < length (controls threeControls)
              \<longrightarrow> \<not> containsPointOf widgetClass (controls threeControls ! j) 160 25"
    using l by auto
  have three: "\<And>j::nat. j < 3 \<Longrightarrow> j = 0 \<or> j = 1 \<or> j = 2" by arith
  have h3: "\<forall>j. j < length (controls threeControls)
              \<longrightarrow> \<not> containsPointOf widgetClass (controls threeControls ! j) 300 200"
    using c l three by metis
  have i1: "(1::nat) < length (controls threeControls)"
    and i2: "(2::nat) < length (controls threeControls)" using l by simp_all
  have r1: "focusIndex (stateOf (onMouseClick widgetClass 100 25 threeControls)) = int 1"
    using click_dispatch [where u = threeControls and I = widgetClass and px = 100 and py = 25 and i = 1, THEN conjunct2, THEN conjunct1]
          m i1 a1 h1
    by blast
  have r2: "focusIndex (stateOf (onMouseClick widgetClass 160 25 threeControls)) = int 2"
    using click_dispatch [where u = threeControls and I = widgetClass and px = 160 and py = 25 and i = 2, THEN conjunct2, THEN conjunct1]
          m i2 b2 h2
    by blast
  have r3: "onMouseClick widgetClass 300 200 threeControls = Inr threeControls"
    using click_dispatch [where u = threeControls and I = widgetClass and px = 300 and py = 200, THEN conjunct2, THEN conjunct2]
          m h3
    by blast
  have r4: "controls (stateOf (onMouseClick widgetClass 100 25 modalOverControls))
              = controls modalOverControls \<and>
            focusIndex (stateOf (onMouseClick widgetClass 100 25 modalOverControls))
              = focusIndex modalOverControls"
    using click_dispatch [where u = modalOverControls and I = widgetClass and px = 100 and py = 25, THEN conjunct1] mm
    by blast
  have f1: "firstItemAt (buttonMenu (last (modals modalOverControls))) 100 25 = None"
    and f2: "firstItemAt (buttonMenu (last (modals modalOverControls))) 400 360 = Some 0"
    and f3: "\<not> pressed (buttonMenu (last (modals modalOverControls)))"
    and f4: "pressed (buttonMenu (last (modals
               (stateOf (onMouseClick widgetClass 400 360 modalOverControls)))))"
    and f5: "timers (stateOf (onMouseClick widgetClass 400 360 modalOverControls))
               = [MenuTimer 1 (ItemCallback 0) 300]"
    by code_simp+
  have r5: "onMouseClick widgetClass 100 25 modalOverControls = Inr modalOverControls"
    using click_dispatch [where u = modalOverControls and I = widgetClass and px = 100 and py = 25, THEN conjunct1] mm f1
    by blast
  have r6: "controls (stateOf (onMouseClick widgetClass 400 360 modalOverControls))
              = controls modalOverControls"
    using click_dispatch [where u = modalOverControls and I = widgetClass and px = 400 and py = 360, THEN conjunct1] mm
    by blast
  have r7: "onMouseClick widgetClass 400 360 modalOverControls =
     Inr (modalOverControls
            \<lparr> modals := (modals modalOverControls)[length (modals modalOverControls) - 1 :=
                 (last (modals modalOverControls))\<lparr> buttonMenu :=
                    (buttonMenu (last (modals modalOverControls)))
                      \<lparr> selectedIndex := Some (int 0), pressed := True, pressedTime := 0 \<rparr> \<rparr>],
              timers := timers modalOverControls @
                 (if callback (items (buttonMenu (last (modals modalOverControls))) ! 0) \<noteq> None
                  then [MenuTimer (oid (buttonMenu (last (modals modalOverControls))))
                          (ItemCallback 0)
                          (pressedDuration (buttonMenu (last (modals modalOverControls))))]
                  else []) \<rparr>)"
    using click_dispatch [where u = modalOverControls and I = widgetClass and px = 400 and py = 360 and k = 0, THEN conjunct1] mm f2
    by blast
  show ?thesis
    using m l a1 a2 b1 b2 t1 t2 p mm r1 r2 r3 r4 f1 f2 f3 f4 f5 r5 r6 r7 by blast
qed

section \<open>Clearing the manager\<close>

text \<open>
  C7. \<open>removeAllControls\<close> empties the controls, the overlay texts and images, the
  modals and the toasts, sets the focus index to -1 and clears the escape handler.
  \<open>removeAllControlsExceptToasts\<close> does the same but for the toasts: the toast
  sequence and the pending timers, the auto-dismiss timers of the toasts among them, are
  as before; a toast just shown and its timer are still there. Neither changes the
  background configuration.
\<close>

theorem removeAll_clears_and_keeps_background:
  "controls (removeAllControls u) = [] \<and> focusIndex (removeAllControls u) = - 1 \<and>
   texts (removeAllControls u) = [] \<and> images (removeAllControls u) = [] \<and>
   modals (removeAllControls u) = [] \<and> toasts (removeAllControls u) = [] \<and>
   onEscape (removeAllControls u) = None \<and>
   options (removeAllControls u) = options u \<and>
   controls (removeAllControlsExceptToasts u) = [] \<and>
   focusIndex (removeAllControlsExceptToasts u) = - 1 \<and>
   texts (removeAllControlsExceptToasts u) = [] \<and>
   images (removeAllControlsExceptToasts u) = [] \<and>
   modals (removeAllControlsExceptToasts u) = [] \<and>
   onEscape (removeAllControlsExceptToasts u) = None \<and>
   toasts (removeAllControlsExceptToasts u) = toasts u \<and>
   timers (removeAllControlsExceptToasts u) = timers u \<and>
   options (removeAllControlsExceptToasts u) = options u \<and>
   removeAllControls u = (removeAllControlsExceptToasts u)\<lparr> toasts := [] \<rparr> \<and>
   toasts (removeAllControlsExceptToasts (snd (showToast msg type dur u)))
     = toasts u @ [fst (showToast msg type dur u)] \<and>
   timers (removeAllControlsExceptToasts (snd (showToast msg type dur u)))
     = timers u @ [ToastTimer (tid (fst (showToast msg type dur u)))
                     (case dur of None \<Rightarrow> 3000 | Some d \<Rightarrow> d)]"
  by (simp add: removeAllControls_def removeAllControlsExceptToasts_def showToast_def Let_def
        Toast_new_def)

theorem removeAll_clears_and_keeps_background_witness:
  "length (controls toastOverModal) = 3 \<and> length (modals toastOverModal) = 1 \<and>
   map toastMessage (toasts toastOverModal) = [''Saved''] \<and>
   timers toastOverModal = [ToastTimer 2 3000] \<and>
   toasts (removeAllControls toastOverModal) = [] \<and>
   controls (removeAllControlsExceptToasts toastOverModal) = [] \<and>
   modals (removeAllControlsExceptToasts toastOverModal) = [] \<and>
   toasts (removeAllControlsExceptToasts toastOverModal) = toasts toastOverModal \<and>
   timers (removeAllControlsExceptToasts toastOverModal) = timers toastOverModal \<and>
   options (removeAllControlsExceptToasts toastOverModal) = options toastOverModal \<and>
   options (removeAllControls toastOverModal) = options toastOverModal"
proof -
  have h: "length (controls toastOverModal) = 3 \<and> length (modals toastOverModal) = 1 \<and>
           map toastMessage (toasts toastOverModal) = [''Saved''] \<and>
           timers toastOverModal = [ToastTimer 2 3000]"
    by code_simp
  show ?thesis
    using removeAll_clears_and_keeps_background [of toastOverModal] h by blast
qed

section \<open>setTheme and the background\<close>

lemma setTheme_theme: "theme (setTheme t u) = theme u ++ t"
  by (simp add: setTheme_def Let_def)

lemma setTheme_options:
  "options (setTheme t u) =
     (if truthy (getProp t ''backgroundColor'')
      then (options u)\<lparr> backgroundColor := getProp t ''backgroundColor'' \<rparr> else options u)"
  by (simp add: setTheme_def Let_def)

lemma setTheme_canvas: "canvasOf (setTheme t u) = canvasOf u"
  by (simp add: setTheme_def Let_def)

text \<open>
  C9, as the code has it. \<open>setTheme\<close> merges its argument into the theme. When the
  value it gives for \<open>backgroundColor\<close> is truthy (a non-empty string, say), that value
  also becomes the background fill colour of the manager, the rest of the background
  configuration stays, and in solid-colour mode (a background, no gradient) \<open>render\<close>
  begins by filling the whole surface with it. When the key is absent or its value is
  falsy, the background configuration is unchanged.
\<close>

theorem setTheme_backgroundColor:
  "theme (setTheme t u) = theme u ++ t \<and>
   (truthy (getProp t ''backgroundColor'') \<longrightarrow>
      options (setTheme t u) = (options u)\<lparr> backgroundColor := getProp t ''backgroundColor'' \<rparr> \<and>
      (\<not> noBackground (options u) \<and> backgroundGradient (options u) = None \<longrightarrow>
         renderBackground (setTheme t u) =
           [FillStyle (getProp t ''backgroundColor''),
            FillRect 0 0 (canvasWidth (canvasOf u)) (canvasHeight (canvasOf u))])) \<and>
   (\<not> truthy (getProp t ''backgroundColor'') \<longrightarrow> options (setTheme t u) = options u)"
  by (simp add: setTheme_theme setTheme_options setTheme_canvas renderBackground_def)

theorem setTheme_backgroundColor_witness:
  "truthy (getProp blueTheme ''backgroundColor'') \<and>
   getProp blueTheme ''backgroundColor'' = JStr ''#0D47A1'' \<and>
   \<not> noBackground (options exampleUi) \<and> backgroundGradient (options exampleUi) = None \<and>
   backgroundColor (options exampleUi) = JStr ''#1a1a1a'' \<and>
   options (setTheme blueTheme exampleUi)
     = (options exampleUi)\<lparr> backgroundColor := getProp blueTheme ''backgroundColor'' \<rparr> \<and>
   renderBackground (setTheme blueTheme exampleUi) =
     [FillStyle (getProp blueTheme ''backgroundColor''),
      FillRect 0 0 (canvasWidth (canvasOf exampleUi)) (canvasHeight (canvasOf exampleUi))] \<and>
   \<not> truthy (getProp emptyColorTheme ''backgroundColor'') \<and>
   options (setTheme emptyColorTheme exampleUi) = options exampleUi"
proof -
  have h1: "truthy (getProp blueTheme ''backgroundColor'')"
    and h2: "getProp blueTheme ''backgroundColor'' = JStr ''#0D47A1''"
    and h3: "\<not> truthy (getProp emptyColorTheme ''backgroundColor'')"
    by (simp_all add: blueTheme_def emptyColorTheme_def getProp_def)
  have h4: "\<not> noBackground (options exampleUi) \<and> backgroundGradient (options exampleUi) = None \<and>
            backgroundColor (options exampleUi) = JStr ''#1a1a1a''"
    by (simp add: exampleUi_def exampleCtorOptions_def MarkJSCanvasUI_new_def)
  show ?thesis
    using setTheme_backgroundColor [of blueTheme exampleUi]
          setTheme_backgroundColor [of emptyColorTheme exampleUi] h1 h2 h3 h4
    by blast
qed

text \<open>
  The claim as stated fails for a key that is present with a falsy value:
  \<open>setTheme({backgroundColor: ''})\<close> puts the empty string into the theme and leaves
  the fill colour at \<open>'#1a1a1a'\<close>, with which \<open>render\<close> goes on filling the surface.
\<close>

theorem setTheme_empty_backgroundColor_counterexample:
  "emptyColorTheme ''backgroundColor'' = Some (JStr []) \<and>
   theme (setTheme emptyColorTheme exampleUi) ''backgroundColor'' = Some (JStr []) \<and>
   backgroundColor (options (setTheme emptyColorTheme exampleUi)) = JStr ''#1a1a1a'' \<and>
   renderBackground (setTheme emptyColorTheme exampleUi)
     = [FillStyle (JStr ''#1a1a1a''), FillRect 0 0 800 600]"
  by (simp add: setTheme_def Let_def emptyColorTheme_def getProp_def renderBackground_def
        exampleUi_def exampleCtorOptions_def MarkJSCanvasUI_new_def exampleCanvas_def)

section \<open>Toast: the configuration of a type\<close>

text \<open>
  For a type that is neither one of the four kinds nor the name of a property of
  \<open>Object.prototype\<close>, the toast gets the configuration of info.
\<close>

lemma Toast_new_unknown_type:
  assumes "type \<notin> set [''info'', ''success'', ''warning'', ''error'']"
    and "type \<notin> set objectPrototypeNames"
  shows "config (Toast_new ident msg type dur) = Config ''#2196F3'' [CHR 0xE2, CHR 0x84, CHR 0xB9]"
  using assms by (simp add: Toast_new_def typeConfigAt_def typeConfig_def)

text \<open>
  C10 fails on the code for the names that every object inherits.
  \<open>showToast('Saved', 'constructor')\<close> does not fail, but \<open>typeConfig['constructor']\<close>
  is the function \<open>Object\<close>, which is truthy, so the fallback to info is not taken: the
  toast has neither accent colour nor glyph, where a toast of type info has
  \<open>'#2196F3'\<close> and the info glyph.
\<close>

theorem Toast_type_constructor_is_not_info:
  "config (fst (showToast ''Saved'' (Some ''constructor'') None exampleUi))
     = Inherited ''constructor'' \<and>
   configColor (fst (showToast ''Saved'' (Some ''constructor'') None exampleUi)) = JUndefined \<and>
   configIcon (fst (showToast ''Saved'' (Some ''constructor'') None exampleUi)) = JUndefined \<and>
   configColor (fst (showToast ''Saved'' (Some ''info'') None exampleUi)) = JStr ''#2196F3'' \<and>
   configIcon (fst (showToast ''Saved'' (Some ''info'') None exampleUi))
     = JStr [CHR 0xE2, CHR 0x84, CHR 0xB9] \<and>
   configColor (fst (showToast ''Saved'' (Some ''notice'') None exampleUi)) = JStr ''#2196F3''"
  by code_simp

end
